theory Spec2Isabelle
  imports
    Main
    "HOL-Library.Char_ord"
    "HOL-Library.List_Lexorder"
    "HOL-Library.Product_Lexorder"
    "HOL-Library.Sublist"
    "HOL-Library.AList"
begin

section \<open>Stored documents and the remote collection\<close>

text \<open>
  A stored document is what \<^verbatim>\<open>doc_snap.to_dict()\<close> returns, together with the
  identifier \<^verbatim>\<open>doc_snap.id\<close>. The fields are the ones \<^verbatim>\<open>app.py\<close> writes:
  \<^verbatim>\<open>toolId\<close>, \<^verbatim>\<open>toolName\<close>, \<^verbatim>\<open>prompt\<close>, \<^verbatim>\<open>text\<close>, the server timestamp
  \<^verbatim>\<open>createdAt\<close> and, after an edit, \<^verbatim>\<open>updatedAt\<close>. Timestamps are integers
  (ticks of the server clock). Strings are byte strings in UTF-8, as the source file is.
\<close>

record content =
  toolId :: string
  toolName :: string
  prompt :: string
  text_field :: string
  createdAt :: int
  updatedAt :: "int option"

record doc_snapshot =
  snap_id :: string
  to_dict :: content

text \<open>
  An entry of \<^verbatim>\<open>generated_content_list\<close>: \<^verbatim>\<open>item = doc_snap.to_dict()\<close> followed by
  \<^verbatim>\<open>item['id'] = doc_snap.id\<close>.
\<close>

record item =
  item_id :: string
  item_dict :: content

definition item_of :: "doc_snapshot \<Rightarrow> item" where
  "item_of doc_snap = \<lparr>item_id = snap_id doc_snap, item_dict = to_dict doc_snap\<rparr>"

text \<open>
  What the tool page hands to \<^verbatim>\<open>save_content_to_firestore\<close> (the server adds
  \<^verbatim>\<open>createdAt\<close>), and what the edit dialog hands to \<^verbatim>\<open>update_content_in_firestore\<close>
  (the server adds \<^verbatim>\<open>updatedAt\<close>).
\<close>

record new_content =
  new_toolId :: string
  new_toolName :: string
  new_prompt :: string
  new_text :: string

record updated_data =
  upd_prompt :: string
  upd_text :: string

text \<open>
  Exceptions are values: the class decides which \<^verbatim>\<open>except\<close> clause catches it, the
  string is \<^verbatim>\<open>str(e)\<close>, which the messages interpolate. \<open>RequestException\<close> stands
  for \<^verbatim>\<open>requests.exceptions.RequestException\<close> and its subclasses; every class below
  is a subclass of \<^verbatim>\<open>Exception\<close>.
\<close>

datatype exc_class =
  RequestException | IndexError | KeyError | AttributeError | TypeError
  | NotFound | ServiceUnavailable

datatype exn = Exn exc_class string

fun exn_class :: "exn \<Rightarrow> exc_class" where
  "exn_class (Exn c m) = c"

fun str_exn :: "exn \<Rightarrow> string" where
  "str_exn (Exn c m) = m"

text \<open>
  The query \<^verbatim>\<open>fetch_content\<close> builds is always
  \<^verbatim>\<open>order_by("createdAt", direction=DESCENDING).limit(limit_num)\<close>, with
  \<^verbatim>\<open>start_after(last_doc_snapshot)\<close> when a cursor is given; only the limit and the
  cursor vary.
\<close>

record query =
  limit :: nat
  start_after :: "doc_snapshot option"

text \<open>
  The database object \<^verbatim>\<open>db\<close>, restricted to the user's content collection: what each
  remote call answers. A call either raises (\<open>Inl e\<close>, \<open>Some e\<close>) or succeeds.
\<close>

record firestore =
  db_stream :: "query \<Rightarrow> exn + doc_snapshot list"
  db_add :: "new_content \<Rightarrow> exn option"
  db_update :: "string \<Rightarrow> updated_data \<Rightarrow> exn option"
  db_delete :: "string \<Rightarrow> exn option"

text \<open>
  Modelled from the spec: the remote store is a service outside the repository, which
  only calls it. Its contract for a page read (section 4.1) is: up to \<open>limit\<close> items
  ordered by \<^verbatim>\<open>createdAt\<close> descending and, when a cursor is given, the items strictly
  after the cursor's position in the same order. The collection is given as the list of
  its documents in any order; documents with the same timestamp are ordered by their
  identifier, descending as well, so that every document has one position.
  \<open>static_db\<close> is a store that holds a collection that does not change and answers
  every call.
\<close>

definition order_key :: "doc_snapshot \<Rightarrow> int \<times> string" where
  "order_key d = (createdAt (to_dict d), snap_id d)"

definition order_by_createdAt_desc :: "doc_snapshot list \<Rightarrow> doc_snapshot list" where
  "order_by_createdAt_desc coll = rev (sort_key order_key coll)"

definition collection_stream :: "doc_snapshot list \<Rightarrow> query \<Rightarrow> doc_snapshot list" where
  "collection_stream coll q =
     take (limit q)
       (case start_after q of
          None \<Rightarrow> order_by_createdAt_desc coll
        | Some c \<Rightarrow> filter (\<lambda>d. order_key d < order_key c) (order_by_createdAt_desc coll))"

definition static_db :: "doc_snapshot list \<Rightarrow> firestore" where
  "static_db coll =
     \<lparr>db_stream = (\<lambda>q. Inr (collection_stream coll q)),
      db_add = (\<lambda>c. None),
      db_update = (\<lambda>i u. None),
      db_delete = (\<lambda>i. None)\<rparr>"

text \<open>A store whose every call raises \<open>e\<close>.\<close>

definition failing_db :: "exn \<Rightarrow> firestore" where
  "failing_db e =
     \<lparr>db_stream = (\<lambda>q. Inl e),
      db_add = (\<lambda>c. Some e),
      db_update = (\<lambda>i u. Some e),
      db_delete = (\<lambda>i. Some e)\<rparr>"

section \<open>Session state and the effects of a script run\<close>

text \<open>
  \<^verbatim>\<open>st.session_state\<close>. A key that the code deletes (\<^verbatim>\<open>del\<close>) is an option field,
  \<open>None\<close> when the key is absent; for the two identifiers and \<^verbatim>\<open>user_id\<close>, \<open>None\<close>
  also stands for the Python value \<^verbatim>\<open>None\<close>, which every reader treats like an absent
  key. The other keys are never deleted, and the script gives each its default before a
  page is drawn, so they are plain fields. \<^verbatim>\<open>prompt_widgets\<close> holds the widget
  values \<^verbatim>\<open>prompt_<tool_key>\<close>.
\<close>

record session =
  user_id :: "string option"
  temp_user_id :: "string option"
  user_display_name :: string
  current_page :: string
  is_loading :: bool
  generated_result :: string
  error_message :: "string option"
  prompt_widgets :: "(string \<times> string) list"
  generated_content_list :: "item list option"
  last_doc_snapshot :: "doc_snapshot option"
  has_more_content :: bool
  is_loading_content :: bool
  deleting_item_id :: "string option"
  editing_item_id :: "string option"
  editing_item_prompt :: string
  editing_item_text :: string
  editing_item_toolName :: string

text \<open>
  What a run does that can be observed, in order: the messages it shows, the items it
  lists, and the remote calls it makes.
\<close>

datatype effect =
  StSuccess string | StError string | StWarning string | StInfo string
  | Expander item | ResultArea string
  | ApiPost string
  | StoreStream query | StoreAdd new_content | StoreUpdate string updated_data
  | StoreDelete string

text \<open>
  \<^verbatim>\<open>st.rerun()\<close> raises a control exception that no \<^verbatim>\<open>except Exception\<close> catches: the
  run ends there and the script starts again. A function that may call it returns how it
  ended.
\<close>

datatype ctl = Finished | Rerun

definition ITEMS_PER_PAGE :: nat where
  "ITEMS_PER_PAGE = 5"

definition add_toast :: "string \<Rightarrow> string \<Rightarrow> effect" where
  "add_toast message type =
     (if type = ''success'' then StSuccess message
      else if type = ''error'' then StError message
      else if type = ''warning'' then StWarning message
      else StInfo message)"

text \<open>
  \<^verbatim>\<open>download_as_pdf\<close>. Building the document is the work of the PDF library, which
  is outside the repository: \<open>fpdf\<close> says, for a text, whether the library raises.
  When it does not, the download button is drawn and the success notice shown; when it
  does, the handler shows the error and the failure notice. \<^verbatim>\<open>download_as_txt\<close> only
  draws a button and shows nothing.
\<close>

definition msg_pdf_ready :: string where
  "msg_pdf_ready = ''PDF pronto para download!''"

definition msg_pdf_error :: "exn \<Rightarrow> string" where
  "msg_pdf_error e = ''Erro ao gerar PDF: '' @ str_exn e"

definition msg_pdf_failed :: string where
  "msg_pdf_failed = ''Erro ao gerar PDF.''"

definition download_as_pdf :: "(string \<Rightarrow> exn option) \<Rightarrow> string \<Rightarrow> effect list" where
  "download_as_pdf fpdf txt =
     (case fpdf txt of
        None \<Rightarrow> [add_toast msg_pdf_ready ''success'']
      | Some e \<Rightarrow> [StError (msg_pdf_error e), add_toast msg_pdf_failed ''error''])"

definition get_user_id :: "session \<Rightarrow> session \<times> string" where
  "get_user_id s =
     (if user_id s = None \<or> user_id s = Some [] then
        let s1 = (if temp_user_id s = None
                  then s\<lparr>temp_user_id := Some ''default_user''\<rparr> else s);
            s2 = s1\<lparr>user_id := temp_user_id s1,
                    user_display_name := ''Usu'' @ [CHR 0xC3, CHR 0xA1] @ ''rio Visitante''\<rparr>
        in (s2, case user_id s2 of None \<Rightarrow> [] | Some u \<Rightarrow> u)
      else (s, case user_id s of None \<Rightarrow> [] | Some u \<Rightarrow> u))"

section \<open>Firestore interaction functions\<close>

definition msg_user_save :: string where
  "msg_user_save = ''Usu'' @ [CHR 0xC3, CHR 0xA1] @ ''rio n'' @ [CHR 0xC3, CHR 0xA3]
     @ ''o identificado. N'' @ [CHR 0xC3, CHR 0xA3] @ ''o '' @ [CHR 0xC3, CHR 0xA9]
     @ '' poss'' @ [CHR 0xC3, CHR 0xAD] @ ''vel salvar.''"

definition msg_saved :: string where
  "msg_saved = ''Conte'' @ [CHR 0xC3, CHR 0xBA] @ ''do salvo com sucesso!''"

definition msg_save_failed :: "exn \<Rightarrow> string" where
  "msg_save_failed e = ''Falha ao salvar conte'' @ [CHR 0xC3, CHR 0xBA] @ ''do: '' @ str_exn e"

definition msg_fetch_failed :: "exn \<Rightarrow> string" where
  "msg_fetch_failed e = ''Erro ao buscar conte'' @ [CHR 0xC3, CHR 0xBA] @ ''dos: '' @ str_exn e"

definition msg_user_delete :: string where
  "msg_user_delete = ''Usu'' @ [CHR 0xC3, CHR 0xA1] @ ''rio n'' @ [CHR 0xC3, CHR 0xA3]
     @ ''o identificado. N'' @ [CHR 0xC3, CHR 0xA3] @ ''o '' @ [CHR 0xC3, CHR 0xA9]
     @ '' poss'' @ [CHR 0xC3, CHR 0xAD] @ ''vel excluir.''"

definition msg_deleted :: string where
  "msg_deleted = ''Conte'' @ [CHR 0xC3, CHR 0xBA] @ ''do exclu'' @ [CHR 0xC3, CHR 0xAD]
     @ ''do com sucesso!''"

definition msg_delete_failed :: "exn \<Rightarrow> string" where
  "msg_delete_failed e =
     ''Falha ao excluir conte'' @ [CHR 0xC3, CHR 0xBA] @ ''do: '' @ str_exn e"

definition msg_user_update :: string where
  "msg_user_update = ''Usu'' @ [CHR 0xC3, CHR 0xA1] @ ''rio n'' @ [CHR 0xC3, CHR 0xA3]
     @ ''o identificado. N'' @ [CHR 0xC3, CHR 0xA3] @ ''o '' @ [CHR 0xC3, CHR 0xA9]
     @ '' poss'' @ [CHR 0xC3, CHR 0xAD] @ ''vel atualizar.''"

definition msg_updated :: string where
  "msg_updated = ''Conte'' @ [CHR 0xC3, CHR 0xBA] @ ''do atualizado com sucesso!''"

definition msg_update_failed :: "exn \<Rightarrow> string" where
  "msg_update_failed e =
     ''Falha ao atualizar conte'' @ [CHR 0xC3, CHR 0xBA] @ ''do: '' @ str_exn e"

text \<open>
  \<^verbatim>\<open>save_content_to_firestore\<close>. \<^verbatim>\<open>get_content_collection_ref\<close> calls
  \<^verbatim>\<open>get_user_id\<close> once more. On success the cache key is deleted and the script
  reruns; an exception of the store is caught, reported, and the function returns.
\<close>

definition save_content_to_firestore ::
  "session \<Rightarrow> new_content \<Rightarrow> firestore \<Rightarrow> ctl \<times> session \<times> effect list" where
  "save_content_to_firestore s content_data db =
     (let (s1, uid) = get_user_id s in
      if uid = [] then (Finished, s1, [add_toast msg_user_save ''error''])
      else
        let (s2, uid2) = get_user_id s1 in
        case db_add db content_data of
          None \<Rightarrow>
            (Rerun, s2\<lparr>generated_content_list := None\<rparr>,
             [StoreAdd content_data, add_toast msg_saved ''success''])
        | Some e \<Rightarrow>
            (Finished, s2,
             [StoreAdd content_data, add_toast (msg_save_failed e) ''error'']))"

text \<open>
  \<^verbatim>\<open>fetch_content\<close>. The cursor is passed to the query when it is not \<^verbatim>\<open>None\<close> (a
  document snapshot is a truthy object). The result is the triple
  \<^verbatim>\<open>(content, new_last_doc, has_more)\<close>.
\<close>

definition fetch_content ::
  "session \<Rightarrow> nat \<Rightarrow> doc_snapshot option \<Rightarrow> firestore
     \<Rightarrow> session \<times> effect list \<times> (item list \<times> doc_snapshot option \<times> bool)" where
  "fetch_content s limit_num last_doc db =
     (let (s1, uid) = get_user_id s in
      if uid = [] then (s1, [], ([], None, False))
      else
        let (s2, uid2) = get_user_id s1;
            q = \<lparr>limit = limit_num, start_after = last_doc\<rparr>
        in case db_stream db q of
             Inr docs_snapshots \<Rightarrow>
               (s2, [StoreStream q],
                (map item_of docs_snapshots,
                 (if docs_snapshots \<noteq> [] then Some (last docs_snapshots) else None),
                 length docs_snapshots = limit_num))
           | Inl e \<Rightarrow>
               (s2, [StoreStream q, StError (msg_fetch_failed e)], ([], None, False)))"

definition delete_content_from_firestore ::
  "session \<Rightarrow> string \<Rightarrow> firestore \<Rightarrow> ctl \<times> session \<times> effect list" where
  "delete_content_from_firestore s content_id db =
     (let (s1, uid) = get_user_id s in
      if uid = [] then (Finished, s1, [add_toast msg_user_delete ''error''])
      else
        let (s2, uid2) = get_user_id s1 in
        case db_delete db content_id of
          None \<Rightarrow>
            (Rerun, s2\<lparr>generated_content_list := None\<rparr>,
             [StoreDelete content_id, add_toast msg_deleted ''success''])
        | Some e \<Rightarrow>
            (Finished, s2,
             [StoreDelete content_id, add_toast (msg_delete_failed e) ''error'']))"

text \<open>
  \<^verbatim>\<open>update_content_in_firestore\<close> returns \<^verbatim>\<open>True\<close> or \<^verbatim>\<open>False\<close> and never reruns
  by itself. One \<^verbatim>\<open>except Exception\<close> clause handles everything the store raises.
\<close>

definition update_content_in_firestore ::
  "session \<Rightarrow> string \<Rightarrow> updated_data \<Rightarrow> firestore \<Rightarrow> session \<times> effect list \<times> bool" where
  "update_content_in_firestore s content_id upd db =
     (let (s1, uid) = get_user_id s in
      if uid = [] then (s1, [add_toast msg_user_update ''error''], False)
      else
        let (s2, uid2) = get_user_id s1 in
        case db_update db content_id upd of
          None \<Rightarrow>
            (s2\<lparr>generated_content_list := None\<rparr>,
             [StoreUpdate content_id upd, add_toast msg_updated ''success''], True)
        | Some e \<Rightarrow>
            (s2, [StoreUpdate content_id upd, add_toast (msg_update_failed e) ''error''],
             False))"

section \<open>The saved-content page\<close>

text \<open>
  \<^verbatim>\<open>str.strip()\<close> removes the whitespace characters at both ends of a string. Python
  counts as whitespace the code points U+0009 to U+000D, U+001C to U+0020, U+0085,
  U+00A0, U+1680, U+2000 to U+200A, U+2028, U+2029, U+202F, U+205F and U+3000. Strings
  are UTF-8 here, so each character is the byte sequence that encodes it; no encoding of
  the table starts or ends another one.
\<close>

definition py_whitespace :: "string list" where
  "py_whitespace =
     [[CHR 0x09], [CHR 0x0A], [CHR 0x0B], [CHR 0x0C], [CHR 0x0D],
      [CHR 0x1C], [CHR 0x1D], [CHR 0x1E], [CHR 0x1F], [CHR 0x20],
      [CHR 0xC2, CHR 0x85], [CHR 0xC2, CHR 0xA0],
      [CHR 0xE1, CHR 0x9A, CHR 0x80],
      [CHR 0xE2, CHR 0x80, CHR 0x80], [CHR 0xE2, CHR 0x80, CHR 0x81],
      [CHR 0xE2, CHR 0x80, CHR 0x82], [CHR 0xE2, CHR 0x80, CHR 0x83],
      [CHR 0xE2, CHR 0x80, CHR 0x84], [CHR 0xE2, CHR 0x80, CHR 0x85],
      [CHR 0xE2, CHR 0x80, CHR 0x86], [CHR 0xE2, CHR 0x80, CHR 0x87],
      [CHR 0xE2, CHR 0x80, CHR 0x88], [CHR 0xE2, CHR 0x80, CHR 0x89],
      [CHR 0xE2, CHR 0x80, CHR 0x8A],
      [CHR 0xE2, CHR 0x80, CHR 0xA8], [CHR 0xE2, CHR 0x80, CHR 0xA9],
      [CHR 0xE2, CHR 0x80, CHR 0xAF],
      [CHR 0xE2, CHR 0x81, CHR 0x9F],
      [CHR 0xE3, CHR 0x80, CHR 0x80]]"

text \<open>
  Removing from the front of \<open>s\<close> every leading character of the table \<open>ws\<close>, one
  character at a time.
\<close>

function lstrip_chars :: "string list \<Rightarrow> string \<Rightarrow> string" where
  "lstrip_chars ws s =
     (case find (\<lambda>w. w \<noteq> [] \<and> prefix w s) ws of
        None \<Rightarrow> s
      | Some w \<Rightarrow> lstrip_chars ws (drop (length w) s))"
  by pat_completeness auto
termination
  by (relation "measure (\<lambda>(ws, s). length s)") (auto simp: find_Some_iff prefix_def)

declare lstrip_chars.simps [simp del]

definition lstrip :: "string \<Rightarrow> string" where
  "lstrip s = lstrip_chars py_whitespace s"

definition rstrip :: "string \<Rightarrow> string" where
  "rstrip s = rev (lstrip_chars (map rev py_whitespace) (rev s))"

definition strip :: "string \<Rightarrow> string" where
  "strip s = rstrip (lstrip s)"

text \<open>
  The widget the user operated in the run, if any: a click is what makes the matching
  \<^verbatim>\<open>st.button\<close> call return \<^verbatim>\<open>True\<close>. The item buttons are identified by the
  position of the item in the list; the save button of the edit dialog carries the
  contents of the dialog's two text areas.
\<close>

datatype click =
  NoClick | ClickEdit nat | ClickDelete nat
  | ClickSaveEdit string string | ClickCancelEdit
  | ClickConfirmDelete | ClickCancelDelete | ClickLoadMore

definition msg_no_content :: string where
  "msg_no_content = ''Nenhum conte'' @ [CHR 0xC3, CHR 0xBA]
     @ ''do salvo ainda. Comece a gerar conte'' @ [CHR 0xC3, CHR 0xBA]
     @ ''dos e eles aparecer'' @ [CHR 0xC3, CHR 0xA3] @ ''o aqui!''"

definition msg_empty_text :: string where
  "msg_empty_text = ''O conte'' @ [CHR 0xC3, CHR 0xBA] @ ''do n'' @ [CHR 0xC3, CHR 0xA3]
     @ ''o pode estar vazio.''"

definition msg_confirm_delete :: string where
  "msg_confirm_delete = ''Tem certeza de que deseja excluir este item? Esta a''
     @ [CHR 0xC3, CHR 0xA7, CHR 0xC3, CHR 0xA3] @ ''o n'' @ [CHR 0xC3, CHR 0xA3]
     @ ''o pode ser desfeita.''"

text \<open>
  Reading \<^verbatim>\<open>st.session_state.generated_content_list\<close>. Every read in the page happens
  after the initialisation block, where the key is present.
\<close>

definition content_list :: "session \<Rightarrow> item list" where
  "content_list s = (case generated_content_list s of None \<Rightarrow> [] | Some l \<Rightarrow> l)"

text \<open>
  The loop over the cached items, from position \<open>i\<close>: each item is shown in an expander
  with its buttons. The edit button stores the item in the \<^verbatim>\<open>editing_item_*\<close> keys and
  reruns at once; the delete button stores the identifier and the loop goes on. Before
  the two buttons the expander draws the download buttons of the item's text, the PDF
  one with its notice.
\<close>

fun items_loop ::
  "(string \<Rightarrow> exn option) \<Rightarrow> session \<Rightarrow> click \<Rightarrow> nat \<Rightarrow> item list
     \<Rightarrow> ctl \<times> session \<times> effect list" where
  "items_loop fpdf s c i [] = (Finished, s, [])"
| "items_loop fpdf s c i (it # rest) =
     (if c = ClickEdit i then
        (Rerun,
         s\<lparr>editing_item_id := Some (item_id it),
           editing_item_prompt := prompt (item_dict it),
           editing_item_text := text_field (item_dict it),
           editing_item_toolName := toolName (item_dict it)\<rparr>,
         Expander it # download_as_pdf fpdf (text_field (item_dict it)))
      else
        let s1 = (if c = ClickDelete i then s\<lparr>deleting_item_id := Some (item_id it)\<rparr> else s);
            (k, s2, effs) = items_loop fpdf s1 c (Suc i) rest
        in (k, s2, Expander it # download_as_pdf fpdf (text_field (item_dict it)) @ effs))"

text \<open>The nested function \<^verbatim>\<open>edit_modal\<close> of the edit dialog.\<close>

definition edit_modal :: "session \<Rightarrow> string \<Rightarrow> click \<Rightarrow> firestore \<Rightarrow> ctl \<times> session \<times> effect list" where
  "edit_modal s edit_id c db =
     (case c of
        ClickSaveEdit current_prompt current_text \<Rightarrow>
          if strip current_text = [] then (Finished, s, [add_toast msg_empty_text ''error''])
          else
            let (s1, effs, success) =
                  update_content_in_firestore s edit_id
                    \<lparr>upd_prompt = current_prompt, upd_text = current_text\<rparr> db
            in if success then (Rerun, s1\<lparr>editing_item_id := None\<rparr>, effs)
               else (Finished, s1, effs)
      | ClickCancelEdit \<Rightarrow> (Rerun, s\<lparr>editing_item_id := None\<rparr>, [])
      | _ \<Rightarrow> (Finished, s, []))"

text \<open>
  The nested function \<^verbatim>\<open>confirm_delete_modal\<close>. When the deletion succeeds,
  \<^verbatim>\<open>delete_content_from_firestore\<close> reruns and the two statements after the call are
  not reached; when it returns, the dialog key is deleted and the script reruns.
\<close>

definition confirm_delete_modal ::
  "session \<Rightarrow> string \<Rightarrow> click \<Rightarrow> firestore \<Rightarrow> ctl \<times> session \<times> effect list" where
  "confirm_delete_modal s item_id_to_delete c db =
     (case c of
        ClickConfirmDelete \<Rightarrow>
          let (k, s1, effs) = delete_content_from_firestore s item_id_to_delete db
          in if k = Rerun then (Rerun, s1, StWarning msg_confirm_delete # effs)
             else (Rerun, s1\<lparr>deleting_item_id := None\<rparr>, StWarning msg_confirm_delete # effs)
      | ClickCancelDelete \<Rightarrow>
          (Rerun, s\<lparr>deleting_item_id := None\<rparr>, [StWarning msg_confirm_delete])
      | _ \<Rightarrow> (Finished, s, [StWarning msg_confirm_delete]))"

text \<open>
  The last block of the page: the load-more button exists only while
  \<^verbatim>\<open>has_more_content\<close> holds and no load is marked as running.
\<close>

definition load_more_block :: "session \<Rightarrow> click \<Rightarrow> firestore \<Rightarrow> ctl \<times> session \<times> effect list" where
  "load_more_block s c db =
     (if has_more_content s \<and> \<not> is_loading_content s then
        if c = ClickLoadMore then
          let s1 = s\<lparr>is_loading_content := True\<rparr>;
              (s2, effs, (new_content, new_last_doc, new_has_more)) =
                 fetch_content s1 ITEMS_PER_PAGE (last_doc_snapshot s1) db
          in (Rerun,
              s2\<lparr>generated_content_list := Some (content_list s2 @ new_content),
                 last_doc_snapshot :=
                   (if new_last_doc \<noteq> None then new_last_doc else last_doc_snapshot s2),
                 has_more_content := new_has_more,
                 is_loading_content := False\<rparr>,
              effs)
        else (Finished, s, [])
      else (Finished, s, []))"

definition render_my_content_page ::
  "(string \<Rightarrow> exn option) \<Rightarrow> session \<Rightarrow> click \<Rightarrow> firestore
     \<Rightarrow> ctl \<times> session \<times> effect list" where
  "render_my_content_page fpdf s c db =
     (let s1 = (if generated_content_list s = None
                then s\<lparr>generated_content_list := Some [],
                       last_doc_snapshot := None,
                       has_more_content := True,
                       is_loading_content := True\<rparr>
                else s)
      in
      if is_loading_content s1 \<and> content_list s1 = [] then
        let (s2, effs, (content, last_doc, has_more)) =
               fetch_content s1 ITEMS_PER_PAGE None db
        in (Rerun,
            s2\<lparr>generated_content_list := Some content,
               last_doc_snapshot := last_doc,
               has_more_content := has_more,
               is_loading_content := False\<rparr>,
            effs)
      else if content_list s1 = [] \<and> \<not> is_loading_content s1 then
        (Finished, s1, [StInfo msg_no_content])
      else
        let (k1, s2, e1) = items_loop fpdf s1 c 0 (content_list s1) in
        if k1 = Rerun then (Rerun, s2, e1)
        else
          let (k2, s3, e2) =
                (case editing_item_id s2 of
                   None \<Rightarrow> (Finished, s2, [])
                 | Some edit_id \<Rightarrow>
                     if edit_id = [] then (Finished, s2, [])
                     else edit_modal s2 edit_id c db)
          in
          if k2 = Rerun then (Rerun, s3, e1 @ e2)
          else
            let (k3, s4, e3) =
                  (case deleting_item_id s3 of
                     None \<Rightarrow> (Finished, s3, [])
                   | Some item_id_to_delete \<Rightarrow>
                       if item_id_to_delete = [] then (Finished, s3, [])
                       else confirm_delete_modal s3 item_id_to_delete c db)
            in
            if k3 = Rerun then (Rerun, s4, e1 @ e2 @ e3)
            else
              let (k4, s5, e4) = load_more_block s4 c db
              in (k4, s5, e1 @ e2 @ e3 @ e4))"

section \<open>Decoded API responses\<close>

text \<open>
  \<^verbatim>\<open>response.json()\<close> yields Python values: \<^verbatim>\<open>None\<close>, booleans, numbers, strings,
  lists and dictionaries (an association list with distinct keys). Numbers are integers
  here. The operations below are the ones \<^verbatim>\<open>render_tool_page\<close> applies to the
  response, with the exception each raises on a value of the wrong type.
\<close>

datatype json =
  JNull | JBool bool | JNum int | JStr string | JArr "json list" | JObj "(string \<times> json) list"

fun truthy :: "json \<Rightarrow> bool" where
  "truthy JNull = False"
| "truthy (JBool b) = b"
| "truthy (JNum n) = (n \<noteq> 0)"
| "truthy (JStr s) = (s \<noteq> [])"
| "truthy (JArr xs) = (xs \<noteq> [])"
| "truthy (JObj kvs) = (kvs \<noteq> [])"

fun type_name :: "json \<Rightarrow> string" where
  "type_name JNull = ''NoneType''"
| "type_name (JBool b) = ''bool''"
| "type_name (JNum n) = ''int''"
| "type_name (JStr s) = ''str''"
| "type_name (JArr xs) = ''list''"
| "type_name (JObj kvs) = ''dict''"

definition bind_exn :: "exn + 'a \<Rightarrow> ('a \<Rightarrow> exn + 'b) \<Rightarrow> exn + 'b" where
  "bind_exn m f = (case m of Inl e \<Rightarrow> Inl e | Inr x \<Rightarrow> f x)"

text \<open>\<^verbatim>\<open>x.get(key, default)\<close>: only a dictionary has the method.\<close>

fun py_get :: "json \<Rightarrow> string \<Rightarrow> json \<Rightarrow> exn + json" where
  "py_get (JObj kvs) k dflt = Inr (case map_of kvs k of None \<Rightarrow> dflt | Some v \<Rightarrow> v)"
| "py_get x k dflt =
     Inl (Exn AttributeError
            ([CHR 0x27] @ type_name x @ [CHR 0x27] @ '' object has no attribute ''
             @ [CHR 0x27] @ ''get'' @ [CHR 0x27]))"

text \<open>
  \<^verbatim>\<open>x[key]\<close> with a string key. The page applies it only to values on which
  \<^verbatim>\<open>.get\<close> has just succeeded, so only the dictionary case is reached.
\<close>

fun py_item :: "json \<Rightarrow> string \<Rightarrow> exn + json" where
  "py_item (JObj kvs) k =
     (case map_of kvs k of
        None \<Rightarrow> Inl (Exn KeyError ([CHR 0x27] @ k @ [CHR 0x27]))
      | Some v \<Rightarrow> Inr v)"
| "py_item (JArr xs) k =
     Inl (Exn TypeError ''list indices must be integers or slices, not str'')"
| "py_item (JStr s) k = Inl (Exn TypeError ''string indices must be integers'')"
| "py_item x k =
     Inl (Exn TypeError ([CHR 0x27] @ type_name x @ [CHR 0x27] @ '' object is not subscriptable''))"

text \<open>\<^verbatim>\<open>x[0]\<close>. The keys of a decoded dictionary are strings, so \<open>0\<close> is never one.\<close>

fun py_index0 :: "json \<Rightarrow> exn + json" where
  "py_index0 (JArr []) = Inl (Exn IndexError ''list index out of range'')"
| "py_index0 (JArr (x # xs)) = Inr x"
| "py_index0 (JStr []) = Inl (Exn IndexError ''string index out of range'')"
| "py_index0 (JStr (c # cs)) = Inr (JStr [c])"
| "py_index0 (JObj kvs) = Inl (Exn KeyError ''0'')"
| "py_index0 x =
     Inl (Exn TypeError ([CHR 0x27] @ type_name x @ [CHR 0x27] @ '' object is not subscriptable''))"

text \<open>The elements a \<^verbatim>\<open>for\<close> visits.\<close>

fun py_iter :: "json \<Rightarrow> exn + json list" where
  "py_iter (JArr xs) = Inr xs"
| "py_iter (JStr s) = Inr (map (\<lambda>c. JStr [c]) s)"
| "py_iter (JObj kvs) = Inr (map (\<lambda>kv. JStr (fst kv)) kvs)"
| "py_iter x =
     Inl (Exn TypeError ([CHR 0x27] @ type_name x @ [CHR 0x27] @ '' object is not iterable''))"

fun str_nat :: "nat \<Rightarrow> string" where
  "str_nat n =
     (if n < 10 then [char_of (48 + n)] else str_nat (n div 10) @ [char_of (48 + n mod 10)])"

text \<open>\<^verbatim>\<open>"".join(text_parts)\<close>, from position \<open>i\<close>: every element must be a string.\<close>

fun join_from :: "nat \<Rightarrow> json list \<Rightarrow> exn + string" where
  "join_from i [] = Inr []"
| "join_from i (JStr s # rest) = bind_exn (join_from (Suc i) rest) (\<lambda>r. Inr (s @ r))"
| "join_from i (x # rest) =
     Inl (Exn TypeError
            (''sequence item '' @ str_nat i @ '': expected str instance, '' @ type_name x
             @ '' found''))"

text \<open>\<^verbatim>\<open>[part.get("text", "") for part in parts]\<close>: stops at the first exception.\<close>

fun text_parts :: "json list \<Rightarrow> exn + json list" where
  "text_parts [] = Inr []"
| "text_parts (part # rest) =
     bind_exn (py_get part ''text'' (JStr []))
       (\<lambda>t. bind_exn (text_parts rest) (\<lambda>ts. Inr (t # ts)))"

text \<open>
  The condition
  \<^verbatim>\<open>result.get("candidates") and result["candidates"][0].get("content", {}).get("parts")\<close>,
  as the truth value the \<^verbatim>\<open>if\<close> tests.
\<close>

definition has_parts :: "json \<Rightarrow> exn + bool" where
  "has_parts result =
     bind_exn (py_get result ''candidates'' JNull) (\<lambda>cands.
       if \<not> truthy cands then Inr False
       else
         bind_exn (py_item result ''candidates'') (\<lambda>cs.
         bind_exn (py_index0 cs) (\<lambda>c0.
         bind_exn (py_get c0 ''content'' (JObj [])) (\<lambda>cont.
         bind_exn (py_get cont ''parts'' JNull) (\<lambda>parts. Inr (truthy parts))))))"

text \<open>The first branch: the generated text.\<close>

definition joined_text :: "json \<Rightarrow> exn + string" where
  "joined_text result =
     bind_exn (py_item result ''candidates'') (\<lambda>cs.
     bind_exn (py_index0 cs) (\<lambda>c0.
     bind_exn (py_item c0 ''content'') (\<lambda>cont.
     bind_exn (py_item cont ''parts'') (\<lambda>parts.
     bind_exn (py_iter parts) (\<lambda>ps.
     bind_exn (text_parts ps) (\<lambda>ts. join_from 0 ts))))))"

text \<open>
  The \<^verbatim>\<open>else\<close> branch reads
  \<^verbatim>\<open>result.get("candidates", [{}])[0].get("finishReason", "N/A")\<close> and
  \<^verbatim>\<open>result.get("candidates", [{}])[0].get("safetyRatings", [])\<close>.
\<close>

definition finish_reason :: "json \<Rightarrow> exn + json" where
  "finish_reason result =
     bind_exn (py_get result ''candidates'' (JArr [JObj []])) (\<lambda>cs.
     bind_exn (py_index0 cs) (\<lambda>c0. py_get c0 ''finishReason'' (JStr ''N/A'')))"

definition safety_ratings :: "json \<Rightarrow> exn + json" where
  "safety_ratings result =
     bind_exn (py_get result ''candidates'' (JArr [JObj []])) (\<lambda>cs.
     bind_exn (py_index0 cs) (\<lambda>c0. py_get c0 ''safetyRatings'' (JArr [])))"

text \<open>
  An interpolated value \<^verbatim>\<open>{v}\<close> in an f-string is \<^verbatim>\<open>str(v)\<close>: a string stands for
  itself, any other value is printed by Python's \<^verbatim>\<open>repr\<close>, which is a parameter here.
\<close>

definition py_str :: "(json \<Rightarrow> string) \<Rightarrow> json \<Rightarrow> string" where
  "py_str repr v = (case v of JStr s \<Rightarrow> s | _ \<Rightarrow> repr v)"

section \<open>The tool page\<close>

text \<open>
  An entry of \<^verbatim>\<open>tool_configs\<close>, with the keys the page logic reads (\<^verbatim>\<open>description\<close>,
  \<^verbatim>\<open>promptPlaceholder\<close> and \<^verbatim>\<open>icon\<close> are only drawn). \<^verbatim>\<open>sampleOutput\<close> is read with
  \<^verbatim>\<open>tool.get('sampleOutput', ...)\<close>, so it may be missing.
\<close>

record tool =
  tool_id :: string
  tool_name :: string
  apiPromptPrefix :: string
  sampleOutput :: "string option"

definition tool_configs :: "(string \<times> tool) list" where
  "tool_configs =
     [(''article'',
       \<lparr>tool_id = ''article'', tool_name = ''Gerador de Artigos'',
        apiPromptPrefix = ''Escreva um artigo detalhado, informativo e bem estruturado sobre o seguinte tema: '',
        sampleOutput = Some ''Artigo gerado sobre o tema X...''\<rparr>),
      (''headline'',
       \<lparr>tool_id = ''headline'', tool_name = ''Gerador de Headlines'',
        apiPromptPrefix = ''Gere 5 op'' @ [CHR 0xC3, CHR 0xA7, CHR 0xC3, CHR 0xB5]
          @ ''es de headlines criativas e impactantes para um conte'' @ [CHR 0xC3, CHR 0xBA]
          @ ''do sobre: '',
        sampleOutput = Some (''1. Headline A'' @ [CHR 0x0A] @ ''2. Headline B...'')\<rparr>),
      (''social'',
       \<lparr>tool_id = ''social'', tool_name = ''Posts para Redes Sociais'',
        apiPromptPrefix = ''Crie um post para redes sociais (adequado para Instagram, Facebook e Twitter) sobre: '',
        sampleOutput = Some ''Post para redes sociais sobre Y...''\<rparr>),
      (''summary'',
       \<lparr>tool_id = ''summary'',
        tool_name = ''Resumidor de Conte'' @ [CHR 0xC3, CHR 0xBA] @ ''dos'',
        apiPromptPrefix = ''Fa'' @ [CHR 0xC3, CHR 0xA7]
          @ ''a um resumo conciso e informativo do seguinte texto: '',
        sampleOutput = Some ''Resumo do texto Z...''\<rparr>)]"

definition popular_tools_ids :: "string list" where
  "popular_tools_ids = [''article'', ''headline'', ''social'', ''summary'']"

definition msg_tool_not_found :: string where
  "msg_tool_not_found = ''Ferramenta n'' @ [CHR 0xC3, CHR 0xA3] @ ''o encontrada.''"

definition msg_enter_prompt :: string where
  "msg_enter_prompt = ''Por favor, insira um prompt.''"

definition msg_generated :: string where
  "msg_generated = ''Conte'' @ [CHR 0xC3, CHR 0xBA] @ ''do gerado com sucesso!''"

definition detailed_error :: "(json \<Rightarrow> string) \<Rightarrow> json \<Rightarrow> json \<Rightarrow> string" where
  "detailed_error repr fr sr =
     ''Resposta da API vazia ou malformada. Motivo: '' @ py_str repr fr
     @ ''. Classifica'' @ [CHR 0xC3, CHR 0xA7, CHR 0xC3, CHR 0xB5] @ ''es: '' @ py_str repr sr"

definition msg_could_not_generate :: "string \<Rightarrow> string" where
  "msg_could_not_generate d = ''N'' @ [CHR 0xC3, CHR 0xA3] @ ''o foi poss'' @ [CHR 0xC3, CHR 0xAD]
     @ ''vel gerar o conte'' @ [CHR 0xC3, CHR 0xBA] @ ''do. '' @ d"

definition msg_generate_failed :: "string \<Rightarrow> string" where
  "msg_generate_failed d = ''Falha ao gerar: '' @ d"

definition msg_network_error :: "exn \<Rightarrow> string" where
  "msg_network_error e = ''Erro de rede/API: '' @ str_exn e"

definition msg_network_toast :: "exn \<Rightarrow> string" where
  "msg_network_toast e = ''Erro na gera'' @ [CHR 0xC3, CHR 0xA7, CHR 0xC3, CHR 0xA3]
     @ ''o (rede): '' @ str_exn e"

definition msg_generation_error :: "exn \<Rightarrow> string" where
  "msg_generation_error e = ''Erro ao gerar conte'' @ [CHR 0xC3, CHR 0xBA] @ ''do: '' @ str_exn e"

definition msg_generation_toast :: "exn \<Rightarrow> string" where
  "msg_generation_toast e = ''Erro na gera'' @ [CHR 0xC3, CHR 0xA7, CHR 0xC3, CHR 0xA3]
     @ ''o: '' @ str_exn e"

definition msg_default_result :: string where
  "msg_default_result = ''Ocorreu um erro ao gerar o conte'' @ [CHR 0xC3, CHR 0xBA] @ ''do.''"

definition msg_nothing_to_save :: string where
  "msg_nothing_to_save = ''Nenhum conte'' @ [CHR 0xC3, CHR 0xBA] @ ''do gerado para salvar.''"

text \<open>
  The body of the \<^verbatim>\<open>try\<close> of the generation block, after the request: what the code
  after \<^verbatim>\<open>result = response.json()\<close> computes, or the exception it raises.
  \<open>Inr (Inl text)\<close> is the first branch, \<open>Inr (Inr (fr, sr))\<close> the \<^verbatim>\<open>else\<close> branch
  with its finish reason and safety ratings.
\<close>

definition read_result :: "json \<Rightarrow> exn + (string + json \<times> json)" where
  "read_result result =
     bind_exn (has_parts result) (\<lambda>ok.
       if ok then bind_exn (joined_text result) (\<lambda>t. Inr (Inl t))
       else
         bind_exn (finish_reason result) (\<lambda>fr.
         bind_exn (safety_ratings result) (\<lambda>sr. Inr (Inr (fr, sr)))))"

text \<open>
  The whole \<^verbatim>\<open>try\<close> statement with its two handlers. \<open>outcome\<close> is what
  \<^verbatim>\<open>requests.post\<close>, \<^verbatim>\<open>raise_for_status\<close> and \<^verbatim>\<open>response.json()\<close> give: an exception
  or the decoded body.
\<close>

definition generate :: "session \<Rightarrow> tool \<Rightarrow> (json \<Rightarrow> string) \<Rightarrow> exn + json \<Rightarrow> session \<times> effect list" where
  "generate s t repr outcome =
     (case bind_exn outcome read_result of
        Inr (Inl generated) \<Rightarrow>
          (s\<lparr>generated_result := generated\<rparr>, [add_toast msg_generated ''success''])
      | Inr (Inr (fr, sr)) \<Rightarrow>
          (s\<lparr>generated_result := msg_could_not_generate (detailed_error repr fr sr)\<rparr>,
           [add_toast (msg_generate_failed (detailed_error repr fr sr)) ''error''])
      | Inl e \<Rightarrow>
          if exn_class e = RequestException then
            (s\<lparr>error_message := Some (msg_network_error e),
               generated_result :=
                 (case sampleOutput t of None \<Rightarrow> msg_default_result | Some x \<Rightarrow> x)\<rparr>,
             [add_toast (msg_network_toast e) ''error''])
          else
            (s\<lparr>error_message := Some (msg_generation_error e),
               generated_result :=
                 (case sampleOutput t of None \<Rightarrow> msg_default_result | Some x \<Rightarrow> x)\<rparr>,
             [add_toast (msg_generation_toast e) ''error'']))"

text \<open>
  What the user did on the tool page in this run: the value of the prompt text area,
  whether the form was submitted, and whether the save button was pressed.
\<close>

record tool_input =
  prompt_value :: string
  submit_button :: bool
  save_button :: bool

text \<open>
  \<^verbatim>\<open>render_tool_page\<close>. The text area is a keyed widget, so its value is also
  \<^verbatim>\<open>st.session_state['prompt_<tool_key>']\<close>, from where the generation block and the
  save button read it. \<open>api\<close> answers the request for a given full prompt. Each of
  the first two blocks ends in \<^verbatim>\<open>st.rerun()\<close>, so the blocks after it are not reached
  in that run. The result block draws the result, the two download buttons (the PDF one
  with its notice) and then the save button.
\<close>

definition render_tool_page ::
  "(string \<Rightarrow> exn option) \<Rightarrow> session \<Rightarrow> string \<Rightarrow> tool_input \<Rightarrow> (string \<Rightarrow> exn + json)
     \<Rightarrow> (json \<Rightarrow> string) \<Rightarrow> firestore \<Rightarrow> ctl \<times> session \<times> effect list" where
  "render_tool_page fpdf s tool_key inp api repr db =
     (case map_of tool_configs tool_key of
        None \<Rightarrow> (Finished, s, [StError msg_tool_not_found])
      | Some t \<Rightarrow>
          let s1 = s\<lparr>prompt_widgets :=
                       AList.update tool_key (prompt_value inp) (prompt_widgets s)\<rparr>;
              (s2, e1) =
                (case error_message s1 of
                   None \<Rightarrow> (s1, [])
                 | Some m \<Rightarrow>
                     if m \<noteq> [] then (s1\<lparr>error_message := None\<rparr>, [StError m])
                     else (s1, []))
          in
          if submit_button inp then
            if strip (prompt_value inp) = [] then
              (Rerun, s2\<lparr>error_message := Some msg_enter_prompt\<rparr>, e1)
            else
              (Rerun,
               s2\<lparr>error_message := Some [], generated_result := [], is_loading := True\<rparr>,
               e1)
          else if is_loading s2 then
            let full_prompt =
                  apiPromptPrefix t
                  @ (case map_of (prompt_widgets s2) tool_key of None \<Rightarrow> [] | Some p \<Rightarrow> p);
                (s3, e2) = generate s2 t repr (api full_prompt)
            in (Rerun, s3\<lparr>is_loading := False\<rparr>, e1 @ ApiPost full_prompt # e2)
          else if generated_result s2 \<noteq> [] then
            if save_button inp then
              if generated_result s2 \<noteq> [] then
                let (k, s3, e2) =
                      save_content_to_firestore s2
                        \<lparr>new_toolId = tool_id t, new_toolName = tool_name t,
                         new_prompt =
                           (case map_of (prompt_widgets s2) tool_key of
                              None \<Rightarrow> [] | Some p \<Rightarrow> p),
                         new_text = generated_result s2\<rparr> db
                in (k, s3,
                    e1 @ ResultArea (generated_result s2)
                       # download_as_pdf fpdf (generated_result s2) @ e2)
              else
                (Finished, s2,
                 e1 @ ResultArea (generated_result s2)
                    # download_as_pdf fpdf (generated_result s2)
                    @ [add_toast msg_nothing_to_save ''warning''])
            else
              (Finished, s2,
               e1 @ ResultArea (generated_result s2)
                  # download_as_pdf fpdf (generated_result s2))
          else (Finished, s2, e1))"

section \<open>The script\<close>

text \<open>
  \<^verbatim>\<open>default_session_state\<close>: the values the script gives to the keys that are missing
  when a run starts. A new session is this record; in a later run the loop restores the
  keys that were deleted.
\<close>

definition default_session_state :: session where
  "default_session_state =
     \<lparr>user_id = None, temp_user_id = None,
      user_display_name = ''Usu'' @ [CHR 0xC3, CHR 0xA1] @ ''rio'',
      current_page = ''dashboard'', is_loading = False, generated_result = [],
      error_message = Some [], prompt_widgets = [],
      generated_content_list = Some [], last_doc_snapshot = None,
      has_more_content = True, is_loading_content = True,
      deleting_item_id = None, editing_item_id = None,
      editing_item_prompt = [], editing_item_text = [], editing_item_toolName = []\<rparr>"

definition init_session_state :: "session \<Rightarrow> session" where
  "init_session_state s =
     s\<lparr>error_message :=
         (case error_message s of None \<Rightarrow> error_message default_session_state | Some m \<Rightarrow> Some m),
       generated_content_list :=
         (case generated_content_list s of
            None \<Rightarrow> generated_content_list default_session_state
          | Some l \<Rightarrow> Some l)\<rparr>"

text \<open>The sidebar menus: the main menu and, under the tools entry, the chosen tool name.\<close>

datatype app_mode = Dashboard | Ferramentas string | MeusConteudos

record run_input =
  menu :: app_mode
  dashboard_button :: "string option"
  tool_page :: tool_input
  content_page :: click

fun split_on :: "char \<Rightarrow> string \<Rightarrow> string list" where
  "split_on sep [] = [[]]"
| "split_on sep (c # cs) =
     (if c = sep then [] # split_on sep cs
      else (case split_on sep cs of [] \<Rightarrow> [[c]] | w # ws \<Rightarrow> (c # w) # ws))"

text \<open>
  \<^verbatim>\<open>render_dashboard_page\<close>: the title reads the display name (through
  \<^verbatim>\<open>get_user_id\<close>), and the button of a popular tool opens that tool.
\<close>

definition render_dashboard_page :: "session \<Rightarrow> string option \<Rightarrow> ctl \<times> session \<times> effect list" where
  "render_dashboard_page s pressed =
     (let (s1, uid) = get_user_id s in
      case pressed of
        None \<Rightarrow> (Finished, s1, [])
      | Some tid \<Rightarrow>
          if tid \<in> set popular_tools_ids
          then (Rerun, s1\<lparr>current_page := ''tool/'' @ tid\<rparr>, [])
          else (Finished, s1, []))"

text \<open>
  One run of the script from the session-state defaults to the page routing. The sidebar
  sets \<^verbatim>\<open>current_page\<close> from the menu in every run.
\<close>

definition main ::
  "(string \<Rightarrow> exn option) \<Rightarrow> session \<Rightarrow> run_input \<Rightarrow> (string \<Rightarrow> exn + json)
     \<Rightarrow> (json \<Rightarrow> string) \<Rightarrow> firestore \<Rightarrow> ctl \<times> session \<times> effect list" where
  "main fpdf s inp api repr db =
     (let s1 = init_session_state s;
          (s2, uid) = get_user_id s1;
          (s3, uid3) = get_user_id s2;
          s4 = (case menu inp of
                  Dashboard \<Rightarrow> s3\<lparr>current_page := ''dashboard''\<rparr>
                | MeusConteudos \<Rightarrow> s3\<lparr>current_page := ''my-content''\<rparr>
                | Ferramentas selected_tool_name \<Rightarrow>
                    (case find (\<lambda>kt. tool_name (snd kt) = selected_tool_name) tool_configs of
                       None \<Rightarrow> s3
                     | Some kt \<Rightarrow> s3\<lparr>current_page := ''tool/'' @ fst kt\<rparr>));
          page_parts = split_on CHR ''/'' (current_page s4);
          page_type = (case page_parts of [] \<Rightarrow> [] | p0 # ps \<Rightarrow> p0);
          page_arg = (if length page_parts > 1 then Some (page_parts ! 1) else None)
      in
      if page_type = ''dashboard'' then render_dashboard_page s4 (dashboard_button inp)
      else if page_type = ''tool'' \<and> page_arg \<noteq> None \<and> page_arg \<noteq> Some [] then
        render_tool_page fpdf s4 (case page_arg of None \<Rightarrow> [] | Some a \<Rightarrow> a)
          (tool_page inp) api repr db
      else if page_type = ''my-content'' then
        render_my_content_page fpdf s4 (content_page inp) db
      else render_dashboard_page s4 (dashboard_button inp))"

section \<open>Runs of the saved-content page\<close>

text \<open>
  The page run once for each click of a list, against the same store, each run starting
  from the session the previous one left.
\<close>

fun page_runs ::
  "(string \<Rightarrow> exn option) \<Rightarrow> click list \<Rightarrow> session \<Rightarrow> firestore \<Rightarrow> session" where
  "page_runs fpdf [] s db = s"
| "page_runs fpdf (c # cs) s db =
     page_runs fpdf cs (fst (snd (render_my_content_page fpdf s c db))) db"

text \<open>
  The cache is empty and waits for its first page: the key is absent, or it holds the
  empty list with the loading flag set (the state the script's defaults give).
\<close>

definition first_load_pending :: "session \<Rightarrow> bool" where
  "first_load_pending s \<longleftrightarrow>
     generated_content_list s = None
     \<or> (generated_content_list s = Some [] \<and> is_loading_content s)"

text \<open>
  The cache holds the first \<open>m\<close> documents of the ordered collection \<open>xs\<close> (all of
  them when there are fewer), no load is marked as running, and the cursor is the last
  cached document whenever more are announced.
\<close>

definition loaded_prefix :: "doc_snapshot list \<Rightarrow> nat \<Rightarrow> session \<Rightarrow> bool" where
  "loaded_prefix xs m s \<longleftrightarrow>
     snd (get_user_id s) \<noteq> []
     \<and> generated_content_list s = Some (map item_of (take m xs))
     \<and> \<not> is_loading_content s
     \<and> (if has_more_content s
        then 0 < m \<and> m \<le> length xs \<and> last_doc_snapshot s = Some (xs ! (m - 1))
        else length xs \<le> m)"

section \<open>Example data\<close>

text \<open>
  Eight saved documents with distinct identifiers, listed in no particular order, and the
  input of a run that shows the saved-content page.
\<close>

definition example_doc :: "string \<Rightarrow> int \<Rightarrow> doc_snapshot" where
  "example_doc i t =
     \<lparr>snap_id = i,
      to_dict = \<lparr>toolId = ''article'', toolName = ''Gerador de Artigos'',
                 prompt = ''tema'', text_field = ''texto'', createdAt = t,
                 updatedAt = None\<rparr>\<rparr>"

definition example_collection :: "doc_snapshot list" where
  "example_collection =
     [example_doc ''c'' 3, example_doc ''a'' 1, example_doc ''d'' 4, example_doc ''h'' 8,
      example_doc ''e'' 5, example_doc ''b'' 2, example_doc ''f'' 6, example_doc ''g'' 7]"

text \<open>
  A session in which the saved-content page has loaded its only document and the edit
  dialog of that item is open.
\<close>

definition loaded_session :: session where
  "loaded_session =
     default_session_state
       \<lparr>generated_content_list :=
          Some [\<lparr>item_id = ''a'',
                 item_dict = \<lparr>toolId = ''article'', toolName = ''Gerador de Artigos'',
                              prompt = ''tema'', text_field = ''texto'', createdAt = 1,
                              updatedAt = None\<rparr>\<rparr>],
        last_doc_snapshot := Some (example_doc ''a'' 1),
        has_more_content := False,
        is_loading_content := False,
        editing_item_id := Some ''a'',
        editing_item_prompt := ''tema'',
        editing_item_text := ''texto'',
        editing_item_toolName := ''Gerador de Artigos''\<rparr>"

definition on_content_page :: "click \<Rightarrow> run_input" where
  "on_content_page c =
     \<lparr>menu = MeusConteudos, dashboard_button = None,
      tool_page = \<lparr>prompt_value = [], submit_button = False, save_button = False\<rparr>,
      content_page = c\<rparr>"

section \<open>The user of the session\<close>

lemma get_user_id_idem:
  "snd (get_user_id s) \<noteq> [] \<Longrightarrow>
   get_user_id (fst (get_user_id s)) = (fst (get_user_id s), snd (get_user_id s))"
  by (auto simp: get_user_id_def Let_def split: option.splits if_splits)

lemma get_user_id_fields:
  "is_loading (fst (get_user_id s)) = is_loading s"
  "generated_result (fst (get_user_id s)) = generated_result s"
  "error_message (fst (get_user_id s)) = error_message s"
  "prompt_widgets (fst (get_user_id s)) = prompt_widgets s"
  "current_page (fst (get_user_id s)) = current_page s"
  "generated_content_list (fst (get_user_id s)) = generated_content_list s"
  "last_doc_snapshot (fst (get_user_id s)) = last_doc_snapshot s"
  "has_more_content (fst (get_user_id s)) = has_more_content s"
  "is_loading_content (fst (get_user_id s)) = is_loading_content s"
  "deleting_item_id (fst (get_user_id s)) = deleting_item_id s"
  "editing_item_id (fst (get_user_id s)) = editing_item_id s"
  "editing_item_prompt (fst (get_user_id s)) = editing_item_prompt s"
  "editing_item_text (fst (get_user_id s)) = editing_item_text s"
  "editing_item_toolName (fst (get_user_id s)) = editing_item_toolName s"
  by (simp_all add: get_user_id_def Let_def)

lemma get_user_id_snd_stable:
  "snd (get_user_id s) \<noteq> [] \<Longrightarrow> snd (get_user_id (fst (get_user_id s))) = snd (get_user_id s)"
  by (simp add: get_user_id_idem)

lemma get_user_id_snd_upd:
  "snd (get_user_id (s\<lparr>generated_content_list := a\<rparr>)) = snd (get_user_id s)"
  "snd (get_user_id (s\<lparr>last_doc_snapshot := b\<rparr>)) = snd (get_user_id s)"
  "snd (get_user_id (s\<lparr>has_more_content := c\<rparr>)) = snd (get_user_id s)"
  "snd (get_user_id (s\<lparr>is_loading_content := d\<rparr>)) = snd (get_user_id s)"
  by (simp_all add: get_user_id_def Let_def)

lemma get_user_id_cache_upd:
  "get_user_id (s\<lparr>generated_content_list := a, last_doc_snapshot := b,
                  has_more_content := c, is_loading_content := d\<rparr>)
   = (case get_user_id s of (s2, uid) \<Rightarrow>
        (s2\<lparr>generated_content_list := a, last_doc_snapshot := b,
            has_more_content := c, is_loading_content := d\<rparr>, uid))"
  by (simp add: get_user_id_def Let_def)

lemma default_user_identified: "snd (get_user_id default_session_state) = ''default_user''"
  by (simp add: get_user_id_def default_session_state_def)

section \<open>Fetching a page\<close>

lemma fetch_content_identified:
  assumes "snd (get_user_id s) \<noteq> []"
  shows "fetch_content s n cur db =
    (case db_stream db \<lparr>limit = n, start_after = cur\<rparr> of
       Inr docs \<Rightarrow>
         (fst (get_user_id s), [StoreStream \<lparr>limit = n, start_after = cur\<rparr>],
          (map item_of docs, (if docs \<noteq> [] then Some (last docs) else None), length docs = n))
     | Inl e \<Rightarrow>
         (fst (get_user_id s),
          [StoreStream \<lparr>limit = n, start_after = cur\<rparr>, StError (msg_fetch_failed e)],
          ([], None, False)))"
proof -
  obtain s1 uid where g: "get_user_id s = (s1, uid)" by (cases "get_user_id s")
  with assms have u: "uid \<noteq> []" by simp
  have "get_user_id s1 = (s1, uid)" using get_user_id_idem[OF assms] g by simp
  then show ?thesis using g u
    by (simp add: fetch_content_def Let_def split: sum.splits)
qed

lemma fetch_content_unidentified:
  assumes "snd (get_user_id s) = []"
  shows "fetch_content s n cur db = (fst (get_user_id s), [], ([], None, False))"
  using assms by (cases "get_user_id s") (simp add: fetch_content_def)

lemma fetch_content_has_more:
  assumes "0 < n"
  shows "(case fetch_content s n cur db of
            (s', effs, content, new_last_doc, has_more) \<Rightarrow> has_more = (length content = n))"
proof (cases "snd (get_user_id s) = []")
  case True
  then show ?thesis using assms by (simp add: fetch_content_unidentified)
next
  case False
  then show ?thesis using assms
    by (simp add: fetch_content_identified split: sum.splits)
qed

lemma fetch_content_failure:
  assumes "db_stream db \<lparr>limit = n, start_after = cur\<rparr> = Inl e"
  shows "(case fetch_content s n cur db of (s', effs, r) \<Rightarrow> r = ([], None, False))"
proof (cases "snd (get_user_id s) = []")
  case True
  then show ?thesis by (simp add: fetch_content_unidentified)
next
  case False
  then show ?thesis using assms by (simp add: fetch_content_identified)
qed

lemma fetch_content_cache_upd:
  "fetch_content (s\<lparr>generated_content_list := a, last_doc_snapshot := b,
                    has_more_content := c, is_loading_content := d\<rparr>) n cur db
   = (case fetch_content s n cur db of (s2, effs, r) \<Rightarrow>
        (s2\<lparr>generated_content_list := a, last_doc_snapshot := b,
            has_more_content := c, is_loading_content := d\<rparr>, effs, r))"
  by (simp add: fetch_content_def get_user_id_cache_upd Let_def split: prod.splits sum.splits)

section \<open>The ordered collection\<close>

lemma filter_after_cursor:
  "sorted_wrt (\<lambda>a b. f b < f a) xs \<Longrightarrow> k < length xs \<Longrightarrow>
   filter (\<lambda>d. f d < f (xs ! k)) xs = drop (Suc k) (xs :: 'a list)"
  for f :: "'a \<Rightarrow> 'b::linorder"
proof (induction xs arbitrary: k)
  case Nil
  then show ?case by simp
next
  case (Cons x xs)
  show ?case
  proof (cases k)
    case 0
    have "\<forall>y\<in>set xs. f y < f x" using Cons.prems(1) by simp
    then have "filter (\<lambda>d. f d < f x) xs = xs" by (simp add: filter_id_conv)
    then show ?thesis using 0 by simp
  next
    case (Suc j)
    then have j: "j < length xs" using Cons.prems(2) by simp
    then have "f (xs ! j) < f x" using Cons.prems(1) by simp
    then have "\<not> f x < f (xs ! j)" by simp
    moreover have "filter (\<lambda>d. f d < f (xs ! j)) xs = drop (Suc j) xs"
      using Cons.IH[of j] Cons.prems(1) j by simp
    ultimately show ?thesis using Suc by simp
  qed
qed

lemma order_key_distinct: "distinct (map snap_id coll) \<Longrightarrow> distinct (map order_key coll)"
  by (induction coll) (auto simp: order_key_def)

lemma ordered_desc_strict:
  assumes "distinct (map snap_id coll)"
  shows "sorted_wrt (\<lambda>a b. order_key b < order_key a) (order_by_createdAt_desc coll)"
proof -
  let ?ys = "sort_key order_key coll"
  have s: "sorted (map order_key ?ys)" by simp
  have d: "distinct (map order_key ?ys)"
    using order_key_distinct[OF assms] by (simp add: distinct_map)
  have "sorted_wrt (<) (map order_key ?ys)"
    using s d by (simp add: strict_sorted_iff)
  then have "sorted_wrt (\<lambda>a b. order_key a < order_key b) ?ys"
    by (simp add: sorted_wrt_map)
  then show ?thesis
    unfolding order_by_createdAt_desc_def by (simp add: sorted_wrt_rev)
qed

lemma stream_after_position:
  assumes "distinct (map snap_id coll)" "0 < m" "m \<le> length (order_by_createdAt_desc coll)"
  shows "collection_stream coll
           \<lparr>limit = n, start_after = Some (order_by_createdAt_desc coll ! (m - 1))\<rparr>
         = take n (drop m (order_by_createdAt_desc coll))"
  using filter_after_cursor[OF ordered_desc_strict[OF assms(1)], of "m - 1"] assms(2,3)
  by (simp add: collection_stream_def)

lemma order_by_createdAt_desc_sorted:
  "sorted_wrt (\<lambda>a b. createdAt (to_dict b) \<le> createdAt (to_dict a))
     (order_by_createdAt_desc coll)"
proof -
  have "sorted (map order_key (sort_key order_key coll))" by simp
  then have "sorted_wrt (\<lambda>a b. order_key a \<le> order_key b) (sort_key order_key coll)"
    by (simp add: sorted_map)
  then have "sorted_wrt (\<lambda>a b. createdAt (to_dict a) \<le> createdAt (to_dict b))
               (sort_key order_key coll)"
    by (rule sorted_wrt_mono_rel[rotated]) (auto simp: order_key_def less_eq_prod_def)
  then show ?thesis
    unfolding order_by_createdAt_desc_def by (simp add: sorted_wrt_rev)
qed

lemma order_by_createdAt_desc_set: "set (order_by_createdAt_desc coll) = set coll"
  by (simp add: order_by_createdAt_desc_def)

lemma order_by_createdAt_desc_length: "length (order_by_createdAt_desc coll) = length coll"
  by (simp add: order_by_createdAt_desc_def)

section \<open>Runs of the saved-content page\<close>

lemma items_loop_other_click:
  assumes "\<And>i. c \<noteq> ClickEdit i" "\<And>i. c \<noteq> ClickDelete i"
  shows "items_loop fpdf s c i its =
           (Finished, s,
            concat (map (\<lambda>it. Expander it # download_as_pdf fpdf (text_field (item_dict it)))
                      its))"
  using assms by (induction its arbitrary: i) simp_all

lemma render_first_load:
  assumes "first_load_pending s"
  shows "render_my_content_page fpdf s c db =
    (case fetch_content s ITEMS_PER_PAGE None db of
       (s2, effs, content, last_doc, has_more) \<Rightarrow>
         (Rerun,
          s2\<lparr>generated_content_list := Some content, last_doc_snapshot := last_doc,
             has_more_content := has_more, is_loading_content := False\<rparr>,
          effs))"
proof (cases "generated_content_list s")
  case None
  then show ?thesis
    by (simp add: render_my_content_page_def content_list_def fetch_content_cache_upd
        split: prod.splits)
next
  case (Some l)
  then show ?thesis using assms
    by (simp add: first_load_pending_def render_my_content_page_def content_list_def
        split: prod.splits)
qed

lemma render_first_page:
  assumes "first_load_pending s" and "snd (get_user_id s) \<noteq> []"
    and "db_stream db \<lparr>limit = ITEMS_PER_PAGE, start_after = None\<rparr> = Inr docs"
  shows "render_my_content_page fpdf s c db =
           (Rerun,
            (fst (get_user_id s))
              \<lparr>generated_content_list := Some (map item_of docs),
               last_doc_snapshot := (if docs \<noteq> [] then Some (last docs) else None),
               has_more_content := (length docs = ITEMS_PER_PAGE),
               is_loading_content := False\<rparr>,
            [StoreStream \<lparr>limit = ITEMS_PER_PAGE, start_after = None\<rparr>])"
  using assms(2,3) by (simp add: render_first_load[OF assms(1)] fetch_content_identified)

lemma render_empty_list:
  assumes "generated_content_list s = Some []" "\<not> is_loading_content s"
  shows "render_my_content_page fpdf s c db = (Finished, s, [StInfo msg_no_content])"
  using assms by (simp add: render_my_content_page_def content_list_def)

lemma render_load_more:
  assumes "generated_content_list s = Some l" "l \<noteq> []" "\<not> is_loading_content s"
  shows "fst (snd (render_my_content_page fpdf s ClickLoadMore db))
         = fst (snd (load_more_block s ClickLoadMore db))"
  using assms
  by (auto simp: render_my_content_page_def content_list_def items_loop_other_click
      edit_modal_def confirm_delete_modal_def Let_def split: option.splits prod.splits)

lemma load_more_block_no_more:
  "\<not> has_more_content s \<Longrightarrow> load_more_block s c db = (Finished, s, [])"
  by (simp add: load_more_block_def)

lemma load_more_block_fetch:
  assumes "has_more_content s" "\<not> is_loading_content s" "snd (get_user_id s) \<noteq> []"
    and "db_stream db \<lparr>limit = ITEMS_PER_PAGE, start_after = last_doc_snapshot s\<rparr> = Inr docs"
  shows "\<exists>s'. load_more_block s ClickLoadMore db =
           (Rerun, s', [StoreStream \<lparr>limit = ITEMS_PER_PAGE, start_after = last_doc_snapshot s\<rparr>])
         \<and> generated_content_list s' = Some (content_list s @ map item_of docs)
         \<and> last_doc_snapshot s' = (if docs \<noteq> [] then Some (last docs) else last_doc_snapshot s)
         \<and> has_more_content s' = (length docs = ITEMS_PER_PAGE)
         \<and> \<not> is_loading_content s'
         \<and> snd (get_user_id s') = snd (get_user_id s)"
  using assms
  by (auto simp: load_more_block_def content_list_def get_user_id_fields
      fetch_content_identified get_user_id_snd_upd get_user_id_snd_stable Let_def)

lemma last_of_full_page:
  assumes "length (take p (drop m xs)) = p" "0 < p"
  shows "last (take p (drop m xs)) = xs ! (m + p - 1)"
proof -
  have le: "m + p \<le> length xs" using assms by simp
  have ne: "take p (drop m xs) \<noteq> []" using assms by auto
  have "last (take p (drop m xs)) = take p (drop m xs) ! (p - 1)"
    using ne assms(1) by (simp add: last_conv_nth)
  also have "\<dots> = xs ! (m + (p - 1))" using le assms(2) by simp
  finally show ?thesis using assms(2) by simp
qed

lemma loaded_prefix_step:
  assumes d: "distinct (map snap_id coll)"
    and l: "loaded_prefix (order_by_createdAt_desc coll) m s"
  shows "loaded_prefix (order_by_createdAt_desc coll) (m + ITEMS_PER_PAGE)
           (fst (snd (render_my_content_page fpdf s ClickLoadMore (static_db coll))))"
proof -
  let ?xs = "order_by_createdAt_desc coll"
  let ?db = "static_db coll"
  have u: "snd (get_user_id s) \<noteq> []"
    and g: "generated_content_list s = Some (map item_of (take m ?xs))"
    and nl: "\<not> is_loading_content s"
    using l by (simp_all add: loaded_prefix_def)
  show ?thesis
  proof (cases "has_more_content s")
    case False
    then have len: "length ?xs \<le> m" using l by (simp add: loaded_prefix_def)
    have same: "fst (snd (render_my_content_page fpdf s ClickLoadMore ?db)) = s"
    proof (cases "take m ?xs = []")
      case True
      then show ?thesis using render_empty_list[where s = s and c = ClickLoadMore and db = ?db and fpdf = fpdf] g nl by simp
    next
      case False
      then show ?thesis
        using render_load_more[where s = s and l = "map item_of (take m ?xs)" and db = ?db
            and fpdf = fpdf] g nl
          load_more_block_no_more[OF \<open>\<not> has_more_content s\<close>] by simp
    qed
    show ?thesis using l len False unfolding same by (simp add: loaded_prefix_def)
  next
    case True
    then have m: "0 < m" "m \<le> length ?xs" and cur: "last_doc_snapshot s = Some (?xs ! (m - 1))"
      using l by (simp_all add: loaded_prefix_def)
    let ?page = "take ITEMS_PER_PAGE (drop m ?xs)"
    have st: "db_stream ?db \<lparr>limit = ITEMS_PER_PAGE, start_after = last_doc_snapshot s\<rparr> = Inr ?page"
      using stream_after_position[OF d m] cur by (simp add: static_db_def)
    have ne: "map item_of (take m ?xs) \<noteq> []" using m by auto
    obtain s' where s': "load_more_block s ClickLoadMore ?db =
           (Rerun, s', [StoreStream \<lparr>limit = ITEMS_PER_PAGE, start_after = last_doc_snapshot s\<rparr>])"
       and g': "generated_content_list s' = Some (content_list s @ map item_of ?page)"
       and c': "last_doc_snapshot s' = (if ?page \<noteq> [] then Some (last ?page) else last_doc_snapshot s)"
       and h': "has_more_content s' = (length ?page = ITEMS_PER_PAGE)"
       and nl': "\<not> is_loading_content s'"
       and u': "snd (get_user_id s') = snd (get_user_id s)"
      using load_more_block_fetch[OF True nl u st] by blast
    have r: "fst (snd (render_my_content_page fpdf s ClickLoadMore ?db)) = s'"
      using render_load_more[OF g ne nl, where db = ?db and fpdf = fpdf] s' by simp
    have lst: "generated_content_list s' = Some (map item_of (take (m + ITEMS_PER_PAGE) ?xs))"
      using g' g by (simp add: content_list_def take_add)
    have hm: "m + ITEMS_PER_PAGE \<le> length ?xs
        \<and> last_doc_snapshot s' = Some (?xs ! (m + ITEMS_PER_PAGE - 1))"
      if "has_more_content s'"
    proof -
      have len: "length ?page = ITEMS_PER_PAGE" using that h' by simp
      then have le: "m + ITEMS_PER_PAGE \<le> length ?xs" by (simp add: ITEMS_PER_PAGE_def)
      have pne: "?page \<noteq> []" using len by (auto simp: ITEMS_PER_PAGE_def)
      have "last ?page = ?xs ! (m + ITEMS_PER_PAGE - 1)"
        using last_of_full_page[OF len] by (simp add: ITEMS_PER_PAGE_def)
      then show ?thesis using le c' pne by simp
    qed
    have nm: "length ?xs \<le> m + ITEMS_PER_PAGE" if "\<not> has_more_content s'"
      using that h' by (simp add: ITEMS_PER_PAGE_def)
    show ?thesis unfolding r
      using u u' lst nl' hm nm by (auto simp: loaded_prefix_def ITEMS_PER_PAGE_def)
  qed
qed

lemma loaded_prefix_runs:
  assumes "distinct (map snap_id coll)"
    and "loaded_prefix (order_by_createdAt_desc coll) m s"
  shows "loaded_prefix (order_by_createdAt_desc coll) (m + n * ITEMS_PER_PAGE)
           (page_runs fpdf (replicate n ClickLoadMore) s (static_db coll))"
  using assms(2)
proof (induction n arbitrary: m s)
  case 0
  then show ?case by simp
next
  case (Suc n)
  have "loaded_prefix (order_by_createdAt_desc coll) (m + ITEMS_PER_PAGE + n * ITEMS_PER_PAGE)
           (page_runs fpdf (replicate n ClickLoadMore)
              (fst (snd (render_my_content_page fpdf s ClickLoadMore (static_db coll)))) (static_db coll))"
    using Suc.IH[OF loaded_prefix_step[OF assms(1) Suc.prems]] .
  then show ?case by (simp add: ac_simps)
qed

lemma loaded_prefix_first:
  assumes "distinct (map snap_id coll)" "first_load_pending s" "snd (get_user_id s) \<noteq> []"
  shows "loaded_prefix (order_by_createdAt_desc coll) ITEMS_PER_PAGE
           (fst (snd (render_my_content_page fpdf s NoClick (static_db coll))))"
proof -
  let ?xs = "order_by_createdAt_desc coll"
  let ?page = "take ITEMS_PER_PAGE ?xs"
  have st: "db_stream (static_db coll) \<lparr>limit = ITEMS_PER_PAGE, start_after = None\<rparr> = Inr ?page"
    by (simp add: static_db_def collection_stream_def)
  have r: "render_my_content_page fpdf s NoClick (static_db coll) =
           (Rerun,
            (fst (get_user_id s))
              \<lparr>generated_content_list := Some (map item_of ?page),
               last_doc_snapshot := (if ?page \<noteq> [] then Some (last ?page) else None),
               has_more_content := (length ?page = ITEMS_PER_PAGE),
               is_loading_content := False\<rparr>,
            [StoreStream \<lparr>limit = ITEMS_PER_PAGE, start_after = None\<rparr>])"
    using render_first_page[OF assms(2,3) st] .
  have full: "last ?page = ?xs ! (ITEMS_PER_PAGE - 1)" if "length ?page = ITEMS_PER_PAGE"
    using last_of_full_page[of ITEMS_PER_PAGE 0 ?xs] that by (simp add: ITEMS_PER_PAGE_def)
  show ?thesis
    unfolding r using assms(3) full
    by (auto simp: loaded_prefix_def get_user_id_snd_upd get_user_id_snd_stable
        ITEMS_PER_PAGE_def)
qed

section \<open>Examples\<close>

lemma example_ids_distinct: "distinct (map snap_id example_collection)"
  by (simp add: example_collection_def example_doc_def)

lemma example_ordered:
  "order_by_createdAt_desc example_collection =
     [example_doc ''h'' 8, example_doc ''g'' 7, example_doc ''f'' 6, example_doc ''e'' 5,
      example_doc ''d'' 4, example_doc ''c'' 3, example_doc ''b'' 2, example_doc ''a'' 1]"
  by (simp add: order_by_createdAt_desc_def example_collection_def example_doc_def
      order_key_def)

lemma default_first_load_pending: "first_load_pending default_session_state"
  by (simp add: first_load_pending_def default_session_state_def)

lemma item_of_eq: "item_of = (\<lambda>d. \<lparr>item_id = snap_id d, item_dict = to_dict d\<rparr>)"
  by (rule ext) (simp add: item_of_def)

section \<open>Paging through the saved contents\<close>

text \<open>
  C1. For every collection of documents with distinct identifiers held by a store that
  answers, loading the first page and then pressing load-more \<open>n\<close> times leaves in the
  cache exactly the first \<open>(1 + n) * ITEMS_PER_PAGE\<close> documents of the collection
  ordered by \<open>createdAt\<close> descending, in that order (all of them when the collection
  has fewer): each cached item carries the identifier and the fields of its document.
  The ordered collection has the documents of the collection, each once, with
  timestamps that never increase.
\<close>

theorem load_pages_prefix:
  assumes "distinct (map snap_id coll)"
    and "first_load_pending s"
    and "snd (get_user_id s) \<noteq> []"
  shows "generated_content_list
           (page_runs fpdf (NoClick # replicate n ClickLoadMore) s (static_db coll))
         = Some (map (\<lambda>d. \<lparr>item_id = snap_id d, item_dict = to_dict d\<rparr>)
                   (take ((1 + n) * ITEMS_PER_PAGE) (order_by_createdAt_desc coll)))
         \<and> sorted_wrt (\<lambda>a b. createdAt (to_dict b) \<le> createdAt (to_dict a))
              (order_by_createdAt_desc coll)
         \<and> set (order_by_createdAt_desc coll) = set coll
         \<and> length (order_by_createdAt_desc coll) = length coll"
proof -
  have "generated_content_list
           (page_runs fpdf (NoClick # replicate n ClickLoadMore) s (static_db coll))
         = Some (map item_of (take ((1 + n) * ITEMS_PER_PAGE) (order_by_createdAt_desc coll)))"
    using loaded_prefix_runs[OF assms(1) loaded_prefix_first[OF assms, where fpdf = fpdf],
        where n = n and fpdf = fpdf]
    by (simp add: loaded_prefix_def add.commute)
  then have a: "generated_content_list
           (page_runs fpdf (NoClick # replicate n ClickLoadMore) s (static_db coll))
         = Some (map (\<lambda>d. \<lparr>item_id = snap_id d, item_dict = to_dict d\<rparr>)
                   (take ((1 + n) * ITEMS_PER_PAGE) (order_by_createdAt_desc coll)))"
    by (simp add: item_of_eq)
  from a order_by_createdAt_desc_sorted[of coll] order_by_createdAt_desc_set[of coll]
    order_by_createdAt_desc_length[of coll]
  show ?thesis by (intro conjI)
qed

theorem load_pages_prefix_witness:
  "distinct (map snap_id example_collection)
   \<and> first_load_pending default_session_state
   \<and> snd (get_user_id default_session_state) \<noteq> []
   \<and> generated_content_list
        (page_runs (\<lambda>t. None) (NoClick # replicate 1 ClickLoadMore) default_session_state
           (static_db example_collection))
      = Some
          [\<lparr>item_id = ''h'',
            item_dict = \<lparr>toolId = ''article'', toolName = ''Gerador de Artigos'',
                         prompt = ''tema'', text_field = ''texto'', createdAt = 8,
                         updatedAt = None\<rparr>\<rparr>,
           \<lparr>item_id = ''g'',
            item_dict = \<lparr>toolId = ''article'', toolName = ''Gerador de Artigos'',
                         prompt = ''tema'', text_field = ''texto'', createdAt = 7,
                         updatedAt = None\<rparr>\<rparr>,
           \<lparr>item_id = ''f'',
            item_dict = \<lparr>toolId = ''article'', toolName = ''Gerador de Artigos'',
                         prompt = ''tema'', text_field = ''texto'', createdAt = 6,
                         updatedAt = None\<rparr>\<rparr>,
           \<lparr>item_id = ''e'',
            item_dict = \<lparr>toolId = ''article'', toolName = ''Gerador de Artigos'',
                         prompt = ''tema'', text_field = ''texto'', createdAt = 5,
                         updatedAt = None\<rparr>\<rparr>,
           \<lparr>item_id = ''d'',
            item_dict = \<lparr>toolId = ''article'', toolName = ''Gerador de Artigos'',
                         prompt = ''tema'', text_field = ''texto'', createdAt = 4,
                         updatedAt = None\<rparr>\<rparr>,
           \<lparr>item_id = ''c'',
            item_dict = \<lparr>toolId = ''article'', toolName = ''Gerador de Artigos'',
                         prompt = ''tema'', text_field = ''texto'', createdAt = 3,
                         updatedAt = None\<rparr>\<rparr>,
           \<lparr>item_id = ''b'',
            item_dict = \<lparr>toolId = ''article'', toolName = ''Gerador de Artigos'',
                         prompt = ''tema'', text_field = ''texto'', createdAt = 2,
                         updatedAt = None\<rparr>\<rparr>,
           \<lparr>item_id = ''a'',
            item_dict = \<lparr>toolId = ''article'', toolName = ''Gerador de Artigos'',
                         prompt = ''tema'', text_field = ''texto'', createdAt = 1,
                         updatedAt = None\<rparr>\<rparr>]"
proof -
  have u: "snd (get_user_id default_session_state) \<noteq> []"
    by (simp add: default_user_identified)
  note T = load_pages_prefix[OF example_ids_distinct default_first_load_pending u,
      where fpdf = "\<lambda>t. None" and n = 1]
  have "generated_content_list
        (page_runs (\<lambda>t. None) (NoClick # replicate 1 ClickLoadMore) default_session_state
           (static_db example_collection))
      = Some (map (\<lambda>d. \<lparr>item_id = snap_id d, item_dict = to_dict d\<rparr>)
                (take ((1 + 1) * ITEMS_PER_PAGE) (order_by_createdAt_desc example_collection)))"
    using T by (elim conjE)
  then have l: "generated_content_list
        (page_runs (\<lambda>t. None) (NoClick # replicate 1 ClickLoadMore) default_session_state
           (static_db example_collection))
      = Some (map (\<lambda>d. \<lparr>item_id = snap_id d, item_dict = to_dict d\<rparr>)
           [example_doc ''h'' 8, example_doc ''g'' 7, example_doc ''f'' 6, example_doc ''e'' 5,
            example_doc ''d'' 4, example_doc ''c'' 3, example_doc ''b'' 2, example_doc ''a'' 1])"
    by (simp add: example_ordered ITEMS_PER_PAGE_def)
  show ?thesis
    using example_ids_distinct default_first_load_pending u l
    by (simp add: example_doc_def)
qed

text \<open>
  C5. Every fetch with a positive limit reports \<open>has_more\<close> exactly when the number of
  items it returns equals the limit. In particular, when the store answers the first
  query (limit 5, no cursor) with five documents and the query after the last of them
  with three, the first load announces more and keeps the last document as cursor, and
  the load-more that follows announces no more and leaves in the cache eight items, one
  for each document with its identifier and fields, in the order the store returned
  them.
\<close>

theorem has_more_iff_full_page:
  assumes "first_load_pending s"
    and "snd (get_user_id s) \<noteq> []"
    and "db_stream db \<lparr>limit = ITEMS_PER_PAGE, start_after = None\<rparr> = Inr page1"
    and "length page1 = 5"
    and "db_stream db \<lparr>limit = ITEMS_PER_PAGE, start_after = Some (last page1)\<rparr> = Inr page2"
    and "length page2 = 3"
  shows "(\<forall>s0 n cur db0. 0 < n \<longrightarrow>
            (case fetch_content s0 n cur db0 of
               (s', effs, content, new_last_doc, has_more) \<Rightarrow>
                 has_more = (length content = n)))
         \<and> has_more_content (page_runs fpdf [NoClick] s db)
         \<and> last_doc_snapshot (page_runs fpdf [NoClick] s db) = Some (last page1)
         \<and> \<not> has_more_content (page_runs fpdf [NoClick, ClickLoadMore] s db)
         \<and> generated_content_list (page_runs fpdf [NoClick, ClickLoadMore] s db)
             = Some (map (\<lambda>d. \<lparr>item_id = snap_id d, item_dict = to_dict d\<rparr>) (page1 @ page2))
         \<and> length (page1 @ page2) = 8"
proof -
  let ?s1 = "page_runs fpdf [NoClick] s db"
  have ne1: "page1 \<noteq> []" using assms(4) by auto
  have s1: "?s1 = (fst (get_user_id s))
              \<lparr>generated_content_list := Some (map item_of page1),
               last_doc_snapshot := Some (last page1),
               has_more_content := True,
               is_loading_content := False\<rparr>"
    using render_first_page[OF assms(1,2,3), where c = NoClick and fpdf = fpdf] assms(4) ne1
    by (simp add: ITEMS_PER_PAGE_def)
  have h1: "has_more_content ?s1" and c1: "last_doc_snapshot ?s1 = Some (last page1)"
    and nl1: "\<not> is_loading_content ?s1"
    and g1: "generated_content_list ?s1 = Some (map item_of page1)"
    unfolding s1 by simp_all
  have u1: "snd (get_user_id ?s1) \<noteq> []"
    unfolding s1 using assms(2) by (simp add: get_user_id_snd_upd get_user_id_snd_stable)
  have st2: "db_stream db \<lparr>limit = ITEMS_PER_PAGE, start_after = last_doc_snapshot ?s1\<rparr> = Inr page2"
    using assms(5) c1 by simp
  obtain s2 where b: "load_more_block ?s1 ClickLoadMore db =
           (Rerun, s2, [StoreStream \<lparr>limit = ITEMS_PER_PAGE, start_after = last_doc_snapshot ?s1\<rparr>])"
     and g2: "generated_content_list s2 = Some (content_list ?s1 @ map item_of page2)"
     and h2: "has_more_content s2 = (length page2 = ITEMS_PER_PAGE)"
    using load_more_block_fetch[OF h1 nl1 u1 st2] by blast
  have ne: "map item_of page1 \<noteq> []" using ne1 by simp
  have "page_runs fpdf [NoClick, ClickLoadMore] s db
          = fst (snd (render_my_content_page fpdf ?s1 ClickLoadMore db))"
    by simp
  also have "\<dots> = s2"
    using render_load_more[OF g1 ne nl1, where db = db and fpdf = fpdf] b by simp
  finally have r2: "page_runs fpdf [NoClick, ClickLoadMore] s db = s2" .
  have gen: "\<forall>s0 n cur db0. 0 < n \<longrightarrow>
            (case fetch_content s0 n cur db0 of
               (s', effs, content, new_last_doc, has_more) \<Rightarrow>
                 has_more = (length content = n))"
    by (intro allI impI) (rule fetch_content_has_more)
  have nh2: "\<not> has_more_content (page_runs fpdf [NoClick, ClickLoadMore] s db)"
    unfolding r2 using h2 assms(6) by (simp add: ITEMS_PER_PAGE_def)
  have g2': "generated_content_list (page_runs fpdf [NoClick, ClickLoadMore] s db)
               = Some (map (\<lambda>d. \<lparr>item_id = snap_id d, item_dict = to_dict d\<rparr>) (page1 @ page2))"
    unfolding r2 using g2 g1 by (simp add: content_list_def item_of_eq)
  have len: "length (page1 @ page2) = 8"
    using assms(4,6) by simp
  from gen h1 c1 nh2 g2' len show ?thesis by (intro conjI)
qed

theorem has_more_iff_full_page_witness:
  "first_load_pending default_session_state
   \<and> snd (get_user_id default_session_state) \<noteq> []
   \<and> db_stream (static_db example_collection) \<lparr>limit = ITEMS_PER_PAGE, start_after = None\<rparr>
       = Inr [example_doc ''h'' 8, example_doc ''g'' 7, example_doc ''f'' 6,
              example_doc ''e'' 5, example_doc ''d'' 4]
   \<and> db_stream (static_db example_collection)
         \<lparr>limit = ITEMS_PER_PAGE, start_after = Some (example_doc ''d'' 4)\<rparr>
       = Inr [example_doc ''c'' 3, example_doc ''b'' 2, example_doc ''a'' 1]
   \<and> (case fetch_content default_session_state 5 None (static_db example_collection) of
         (s', effs, content, new_last_doc, has_more) \<Rightarrow> has_more = (length content = 5))
   \<and> has_more_content
        (page_runs (\<lambda>t. None) [NoClick] default_session_state (static_db example_collection))
   \<and> \<not> has_more_content
         (page_runs (\<lambda>t. None) [NoClick, ClickLoadMore] default_session_state
            (static_db example_collection))
   \<and> generated_content_list
        (page_runs (\<lambda>t. None) [NoClick, ClickLoadMore] default_session_state
           (static_db example_collection))
      = Some
          [\<lparr>item_id = ''h'',
            item_dict = \<lparr>toolId = ''article'', toolName = ''Gerador de Artigos'',
                         prompt = ''tema'', text_field = ''texto'', createdAt = 8,
                         updatedAt = None\<rparr>\<rparr>,
           \<lparr>item_id = ''g'',
            item_dict = \<lparr>toolId = ''article'', toolName = ''Gerador de Artigos'',
                         prompt = ''tema'', text_field = ''texto'', createdAt = 7,
                         updatedAt = None\<rparr>\<rparr>,
           \<lparr>item_id = ''f'',
            item_dict = \<lparr>toolId = ''article'', toolName = ''Gerador de Artigos'',
                         prompt = ''tema'', text_field = ''texto'', createdAt = 6,
                         updatedAt = None\<rparr>\<rparr>,
           \<lparr>item_id = ''e'',
            item_dict = \<lparr>toolId = ''article'', toolName = ''Gerador de Artigos'',
                         prompt = ''tema'', text_field = ''texto'', createdAt = 5,
                         updatedAt = None\<rparr>\<rparr>,
           \<lparr>item_id = ''d'',
            item_dict = \<lparr>toolId = ''article'', toolName = ''Gerador de Artigos'',
                         prompt = ''tema'', text_field = ''texto'', createdAt = 4,
                         updatedAt = None\<rparr>\<rparr>,
           \<lparr>item_id = ''c'',
            item_dict = \<lparr>toolId = ''article'', toolName = ''Gerador de Artigos'',
                         prompt = ''tema'', text_field = ''texto'', createdAt = 3,
                         updatedAt = None\<rparr>\<rparr>,
           \<lparr>item_id = ''b'',
            item_dict = \<lparr>toolId = ''article'', toolName = ''Gerador de Artigos'',
                         prompt = ''tema'', text_field = ''texto'', createdAt = 2,
                         updatedAt = None\<rparr>\<rparr>,
           \<lparr>item_id = ''a'',
            item_dict = \<lparr>toolId = ''article'', toolName = ''Gerador de Artigos'',
                         prompt = ''tema'', text_field = ''texto'', createdAt = 1,
                         updatedAt = None\<rparr>\<rparr>]"
proof -
  let ?p1 = "[example_doc ''h'' 8, example_doc ''g'' 7, example_doc ''f'' 6,
              example_doc ''e'' 5, example_doc ''d'' 4]"
  let ?p2 = "[example_doc ''c'' 3, example_doc ''b'' 2, example_doc ''a'' 1]"
  let ?db = "static_db example_collection"
  have u: "snd (get_user_id default_session_state) \<noteq> []"
    by (simp add: default_user_identified)
  have q1: "db_stream ?db \<lparr>limit = ITEMS_PER_PAGE, start_after = None\<rparr> = Inr ?p1"
    by (simp add: static_db_def collection_stream_def example_ordered ITEMS_PER_PAGE_def)
  have q2: "db_stream ?db \<lparr>limit = ITEMS_PER_PAGE, start_after = Some (example_doc ''d'' 4)\<rparr>
              = Inr ?p2"
    by (simp add: static_db_def collection_stream_def example_ordered ITEMS_PER_PAGE_def
        order_key_def example_doc_def)
  have q2': "db_stream ?db \<lparr>limit = ITEMS_PER_PAGE, start_after = Some (last ?p1)\<rparr> = Inr ?p2"
    using q2 by simp
  have l1: "length ?p1 = 5" and l2: "length ?p2 = 3" by simp_all
  note T = has_more_iff_full_page[OF default_first_load_pending u q1 l1 q2' l2,
      where fpdf = "\<lambda>t. None"]
  have a: "case fetch_content default_session_state 5 None ?db of
         (s', effs, content, new_last_doc, has_more) \<Rightarrow> has_more = (length content = 5)"
    using T[THEN conjunct1, rule_format, of 5 default_session_state None ?db] by simp
  have b: "has_more_content (page_runs (\<lambda>t. None) [NoClick] default_session_state ?db)"
    using T by (elim conjE)
  have c: "\<not> has_more_content
             (page_runs (\<lambda>t. None) [NoClick, ClickLoadMore] default_session_state ?db)"
    using T by (elim conjE)
  have d: "generated_content_list
             (page_runs (\<lambda>t. None) [NoClick, ClickLoadMore] default_session_state ?db)
      = Some (map (\<lambda>d. \<lparr>item_id = snap_id d, item_dict = to_dict d\<rparr>) (?p1 @ ?p2))"
    using T by (elim conjE)
  have d': "generated_content_list
              (page_runs (\<lambda>t. None) [NoClick, ClickLoadMore] default_session_state ?db)
      = Some
          [\<lparr>item_id = ''h'',
            item_dict = \<lparr>toolId = ''article'', toolName = ''Gerador de Artigos'',
                         prompt = ''tema'', text_field = ''texto'', createdAt = 8,
                         updatedAt = None\<rparr>\<rparr>,
           \<lparr>item_id = ''g'',
            item_dict = \<lparr>toolId = ''article'', toolName = ''Gerador de Artigos'',
                         prompt = ''tema'', text_field = ''texto'', createdAt = 7,
                         updatedAt = None\<rparr>\<rparr>,
           \<lparr>item_id = ''f'',
            item_dict = \<lparr>toolId = ''article'', toolName = ''Gerador de Artigos'',
                         prompt = ''tema'', text_field = ''texto'', createdAt = 6,
                         updatedAt = None\<rparr>\<rparr>,
           \<lparr>item_id = ''e'',
            item_dict = \<lparr>toolId = ''article'', toolName = ''Gerador de Artigos'',
                         prompt = ''tema'', text_field = ''texto'', createdAt = 5,
                         updatedAt = None\<rparr>\<rparr>,
           \<lparr>item_id = ''d'',
            item_dict = \<lparr>toolId = ''article'', toolName = ''Gerador de Artigos'',
                         prompt = ''tema'', text_field = ''texto'', createdAt = 4,
                         updatedAt = None\<rparr>\<rparr>,
           \<lparr>item_id = ''c'',
            item_dict = \<lparr>toolId = ''article'', toolName = ''Gerador de Artigos'',
                         prompt = ''tema'', text_field = ''texto'', createdAt = 3,
                         updatedAt = None\<rparr>\<rparr>,
           \<lparr>item_id = ''b'',
            item_dict = \<lparr>toolId = ''article'', toolName = ''Gerador de Artigos'',
                         prompt = ''tema'', text_field = ''texto'', createdAt = 2,
                         updatedAt = None\<rparr>\<rparr>,
           \<lparr>item_id = ''a'',
            item_dict = \<lparr>toolId = ''article'', toolName = ''Gerador de Artigos'',
                         prompt = ''tema'', text_field = ''texto'', createdAt = 1,
                         updatedAt = None\<rparr>\<rparr>]"
    using d by (simp add: example_doc_def)
  from default_first_load_pending u q1 q2 a b c d' show ?thesis by (intro conjI)
qed

text \<open>
  C10. Whenever the store raises during a page fetch, \<open>fetch_content\<close> returns the empty
  list, no cursor and \<open>has_more = False\<close>. A first-page load that fails this way
  therefore writes an empty list into the cache, clears the cursor and the two flags,
  and reruns; the next run, whatever the user clicks, only shows the "no saved content"
  notice and makes no store call, so load-more is not offered. The session it leaves is
  the one a successful load of an empty collection leaves.
\<close>

theorem failed_fetch_empties_cache:
  assumes "first_load_pending s"
    and "db_stream db \<lparr>limit = ITEMS_PER_PAGE, start_after = None\<rparr> = Inl e"
  shows "(\<forall>s0 n cur db0 e0.
            db_stream db0 \<lparr>limit = n, start_after = cur\<rparr> = Inl e0 \<longrightarrow>
            (case fetch_content s0 n cur db0 of (s', effs, r) \<Rightarrow> r = ([], None, False)))
         \<and> (case render_my_content_page fpdf s c db of
               (k, s', effs) \<Rightarrow>
                 k = Rerun
                 \<and> generated_content_list s' = Some []
                 \<and> last_doc_snapshot s' = None
                 \<and> \<not> has_more_content s'
                 \<and> \<not> is_loading_content s'
                 \<and> render_my_content_page fpdf s' c' db' = (Finished, s', [StInfo msg_no_content])
                 \<and> s' = fst (snd (render_my_content_page fpdf s c
                                    (db\<lparr>db_stream := (\<lambda>q. Inr [])\<rparr>))))"
proof -
  have gen: "\<forall>s0 n cur db0 e0.
            db_stream db0 \<lparr>limit = n, start_after = cur\<rparr> = Inl e0 \<longrightarrow>
            (case fetch_content s0 n cur db0 of (s', effs, r) \<Rightarrow> r = ([], None, False))"
    by (intro allI impI) (rule fetch_content_failure)
  let ?s' = "(fst (get_user_id s))
               \<lparr>generated_content_list := Some [], last_doc_snapshot := None,
                has_more_content := False, is_loading_content := False\<rparr>"
  have r: "\<exists>effs. render_my_content_page fpdf s c db = (Rerun, ?s', effs)"
    using assms(2)
    by (cases "snd (get_user_id s) = []")
       (simp_all add: render_first_load[OF assms(1)] fetch_content_unidentified
          fetch_content_identified)
  have r0: "fst (snd (render_my_content_page fpdf s c (db\<lparr>db_stream := (\<lambda>q. Inr [])\<rparr>))) = ?s'"
    by (cases "snd (get_user_id s) = []")
       (simp_all add: render_first_load[OF assms(1)] fetch_content_unidentified
          fetch_content_identified ITEMS_PER_PAGE_def)
  have nxt: "render_my_content_page fpdf ?s' c' db' = (Finished, ?s', [StInfo msg_no_content])"
    by (simp add: render_empty_list)
  from r obtain effs where r': "render_my_content_page fpdf s c db = (Rerun, ?s', effs)" ..
  have page: "case render_my_content_page fpdf s c db of
               (k, s', effs) \<Rightarrow>
                 k = Rerun
                 \<and> generated_content_list s' = Some []
                 \<and> last_doc_snapshot s' = None
                 \<and> \<not> has_more_content s'
                 \<and> \<not> is_loading_content s'
                 \<and> render_my_content_page fpdf s' c' db' = (Finished, s', [StInfo msg_no_content])
                 \<and> s' = fst (snd (render_my_content_page fpdf s c
                                    (db\<lparr>db_stream := (\<lambda>q. Inr [])\<rparr>)))"
    unfolding r' using nxt r0 by simp
  from gen page show ?thesis by (intro conjI)
qed

theorem failed_fetch_empties_cache_witness:
  "first_load_pending default_session_state
   \<and> db_stream (failing_db (Exn ServiceUnavailable ''503 unavailable''))
        \<lparr>limit = ITEMS_PER_PAGE, start_after = None\<rparr>
      = Inl (Exn ServiceUnavailable ''503 unavailable'')
   \<and> (case render_my_content_page (\<lambda>t. None) default_session_state NoClick
              (failing_db (Exn ServiceUnavailable ''503 unavailable'')) of
         (k, s', effs) \<Rightarrow>
           k = Rerun
           \<and> generated_content_list s' = Some []
           \<and> last_doc_snapshot s' = None
           \<and> \<not> has_more_content s'
           \<and> \<not> is_loading_content s'
           \<and> render_my_content_page (\<lambda>t. None) s' ClickLoadMore (static_db example_collection)
               = (Finished, s', [StInfo msg_no_content]))"
proof -
  have f: "db_stream (failing_db (Exn ServiceUnavailable ''503 unavailable''))
            \<lparr>limit = ITEMS_PER_PAGE, start_after = None\<rparr>
          = Inl (Exn ServiceUnavailable ''503 unavailable'')"
    by (simp add: failing_db_def)
  note T = failed_fetch_empties_cache[OF default_first_load_pending f,
      where c = NoClick and c' = ClickLoadMore and db' = "static_db example_collection"
      and fpdf = "\<lambda>t. None"]
  have page: "case render_my_content_page (\<lambda>t. None) default_session_state NoClick
              (failing_db (Exn ServiceUnavailable ''503 unavailable'')) of
         (k, s', effs) \<Rightarrow>
           k = Rerun
           \<and> generated_content_list s' = Some []
           \<and> last_doc_snapshot s' = None
           \<and> \<not> has_more_content s'
           \<and> \<not> is_loading_content s'
           \<and> render_my_content_page (\<lambda>t. None) s' ClickLoadMore (static_db example_collection)
               = (Finished, s', [StInfo msg_no_content])"
    using T[THEN conjunct2] by (simp split: prod.splits)
  from default_first_load_pending f page show ?thesis by (intro conjI)
qed

section \<open>Mutations of the store\<close>

lemma save_content_failure:
  assumes "snd (get_user_id s) \<noteq> []" "db_add db content_data = Some e"
  shows "save_content_to_firestore s content_data db =
           (Finished, fst (get_user_id s),
            [StoreAdd content_data, StError (msg_save_failed e)])"
proof -
  obtain s1 uid where g: "get_user_id s = (s1, uid)" by (cases "get_user_id s")
  with assms have u: "uid \<noteq> []" by simp
  have "get_user_id s1 = (s1, uid)" using get_user_id_idem[OF assms(1)] g by simp
  then show ?thesis using g u assms(2)
    by (simp add: save_content_to_firestore_def add_toast_def)
qed

lemma save_content_success:
  assumes "snd (get_user_id s) \<noteq> []" "db_add db content_data = None"
  shows "save_content_to_firestore s content_data db =
           (Rerun, (fst (get_user_id s))\<lparr>generated_content_list := None\<rparr>,
            [StoreAdd content_data, StSuccess msg_saved])"
proof -
  obtain s1 uid where g: "get_user_id s = (s1, uid)" by (cases "get_user_id s")
  with assms have u: "uid \<noteq> []" by simp
  have "get_user_id s1 = (s1, uid)" using get_user_id_idem[OF assms(1)] g by simp
  then show ?thesis using g u assms(2)
    by (simp add: save_content_to_firestore_def add_toast_def)
qed

lemma update_content_failure:
  assumes "snd (get_user_id s) \<noteq> []" "db_update db content_id upd = Some e"
  shows "update_content_in_firestore s content_id upd db =
           (fst (get_user_id s),
            [StoreUpdate content_id upd, StError (msg_update_failed e)], False)"
proof -
  obtain s1 uid where g: "get_user_id s = (s1, uid)" by (cases "get_user_id s")
  with assms have u: "uid \<noteq> []" by simp
  have "get_user_id s1 = (s1, uid)" using get_user_id_idem[OF assms(1)] g by simp
  then show ?thesis using g u assms(2)
    by (simp add: update_content_in_firestore_def add_toast_def)
qed

lemma update_content_success:
  assumes "snd (get_user_id s) \<noteq> []" "db_update db content_id upd = None"
  shows "update_content_in_firestore s content_id upd db =
           ((fst (get_user_id s))\<lparr>generated_content_list := None\<rparr>,
            [StoreUpdate content_id upd, StSuccess msg_updated], True)"
proof -
  obtain s1 uid where g: "get_user_id s = (s1, uid)" by (cases "get_user_id s")
  with assms have u: "uid \<noteq> []" by simp
  have "get_user_id s1 = (s1, uid)" using get_user_id_idem[OF assms(1)] g by simp
  then show ?thesis using g u assms(2)
    by (simp add: update_content_in_firestore_def add_toast_def)
qed

lemma delete_content_failure:
  assumes "snd (get_user_id s) \<noteq> []" "db_delete db content_id = Some e"
  shows "delete_content_from_firestore s content_id db =
           (Finished, fst (get_user_id s),
            [StoreDelete content_id, StError (msg_delete_failed e)])"
proof -
  obtain s1 uid where g: "get_user_id s = (s1, uid)" by (cases "get_user_id s")
  with assms have u: "uid \<noteq> []" by simp
  have "get_user_id s1 = (s1, uid)" using get_user_id_idem[OF assms(1)] g by simp
  then show ?thesis using g u assms(2)
    by (simp add: delete_content_from_firestore_def add_toast_def)
qed

lemma delete_content_success:
  assumes "snd (get_user_id s) \<noteq> []" "db_delete db content_id = None"
  shows "delete_content_from_firestore s content_id db =
           (Rerun, (fst (get_user_id s))\<lparr>generated_content_list := None\<rparr>,
            [StoreDelete content_id, StSuccess msg_deleted])"
proof -
  obtain s1 uid where g: "get_user_id s = (s1, uid)" by (cases "get_user_id s")
  with assms have u: "uid \<noteq> []" by simp
  have "get_user_id s1 = (s1, uid)" using get_user_id_idem[OF assms(1)] g by simp
  then show ?thesis using g u assms(2)
    by (simp add: delete_content_from_firestore_def add_toast_def)
qed

lemma edit_modal_update_failure:
  assumes "snd (get_user_id s) \<noteq> []"
    and "strip ct \<noteq> []"
    and "db_update db content_id \<lparr>upd_prompt = cp, upd_text = ct\<rparr> = Some e"
  shows "edit_modal s content_id (ClickSaveEdit cp ct) db =
           (Finished, fst (get_user_id s),
            [StoreUpdate content_id \<lparr>upd_prompt = cp, upd_text = ct\<rparr>,
             StError (msg_update_failed e)])"
  using assms(2) by (simp add: edit_modal_def update_content_failure[OF assms(1,3)])

lemma confirm_delete_failure:
  assumes "snd (get_user_id s) \<noteq> []"
    and "db_delete db content_id = Some e"
  shows "confirm_delete_modal s content_id ClickConfirmDelete db =
           (Rerun, (fst (get_user_id s))\<lparr>deleting_item_id := None\<rparr>,
            [StWarning msg_confirm_delete, StoreDelete content_id,
             StError (msg_delete_failed e)])"
  by (simp add: confirm_delete_modal_def delete_content_failure[OF assms])

text \<open>
  C6. When the store raises in a \<open>save\<close>, in an \<open>update\<close> or in a \<open>delete\<close>, that
  operation ends with the store's error shown to the user after the failure message of
  the operation, and does not rerun by itself. The session it leaves has the same cached
  list, cursor and flags as before, so nothing is invalidated. The same holds for the
  dialogs that call the update and the deletion: after a failed update the edit dialog
  stays open, after a failed deletion the confirmation closes, and the cached list is as
  it was. Each operation is taken by itself: nothing is assumed of the other calls of
  the store.
\<close>

theorem store_failure_keeps_cache:
  assumes "snd (get_user_id s) \<noteq> []"
  shows "(\<forall>content_data e.
            db_add db content_data = Some e \<longrightarrow>
            save_content_to_firestore s content_data db
              = (Finished, fst (get_user_id s),
                 [StoreAdd content_data, StError (''Falha ao salvar conte'' @ [CHR 0xC3, CHR 0xBA] @ ''do: '' @ str_exn e)]))
         \<and> (\<forall>content_id upd e.
               db_update db content_id upd = Some e \<longrightarrow>
               update_content_in_firestore s content_id upd db
                 = (fst (get_user_id s),
                    [StoreUpdate content_id upd, StError (''Falha ao atualizar conte'' @ [CHR 0xC3, CHR 0xBA] @ ''do: '' @ str_exn e)], False))
         \<and> (\<forall>content_id e.
               db_delete db content_id = Some e \<longrightarrow>
               delete_content_from_firestore s content_id db
                 = (Finished, fst (get_user_id s),
                    [StoreDelete content_id, StError (''Falha ao excluir conte'' @ [CHR 0xC3, CHR 0xBA] @ ''do: '' @ str_exn e)]))
         \<and> (\<forall>content_id cp ct e.
               strip ct \<noteq> []
               \<and> db_update db content_id \<lparr>upd_prompt = cp, upd_text = ct\<rparr> = Some e \<longrightarrow>
               edit_modal s content_id (ClickSaveEdit cp ct) db
                 = (Finished, fst (get_user_id s),
                    [StoreUpdate content_id \<lparr>upd_prompt = cp, upd_text = ct\<rparr>,
                     StError (''Falha ao atualizar conte'' @ [CHR 0xC3, CHR 0xBA] @ ''do: '' @ str_exn e)]))
         \<and> (\<forall>content_id e.
               db_delete db content_id = Some e \<longrightarrow>
               confirm_delete_modal s content_id ClickConfirmDelete db
                 = (Rerun, (fst (get_user_id s))\<lparr>deleting_item_id := None\<rparr>,
                    [StWarning msg_confirm_delete, StoreDelete content_id,
                     StError (''Falha ao excluir conte'' @ [CHR 0xC3, CHR 0xBA] @ ''do: '' @ str_exn e)]))
         \<and> generated_content_list (fst (get_user_id s)) = generated_content_list s
         \<and> last_doc_snapshot (fst (get_user_id s)) = last_doc_snapshot s
         \<and> has_more_content (fst (get_user_id s)) = has_more_content s
         \<and> is_loading_content (fst (get_user_id s)) = is_loading_content s
         \<and> editing_item_id (fst (get_user_id s)) = editing_item_id s"
proof -
  have sv: "\<forall>content_data e.
            db_add db content_data = Some e \<longrightarrow>
            save_content_to_firestore s content_data db
              = (Finished, fst (get_user_id s),
                 [StoreAdd content_data, StError (''Falha ao salvar conte'' @ [CHR 0xC3, CHR 0xBA] @ ''do: '' @ str_exn e)])"
    using save_content_failure[OF assms] by (simp add: msg_save_failed_def)
  have up: "\<forall>content_id upd e.
               db_update db content_id upd = Some e \<longrightarrow>
               update_content_in_firestore s content_id upd db
                 = (fst (get_user_id s),
                    [StoreUpdate content_id upd, StError (''Falha ao atualizar conte'' @ [CHR 0xC3, CHR 0xBA] @ ''do: '' @ str_exn e)], False)"
    using update_content_failure[OF assms] by (simp add: msg_update_failed_def)
  have dl: "\<forall>content_id e.
               db_delete db content_id = Some e \<longrightarrow>
               delete_content_from_firestore s content_id db
                 = (Finished, fst (get_user_id s),
                    [StoreDelete content_id, StError (''Falha ao excluir conte'' @ [CHR 0xC3, CHR 0xBA] @ ''do: '' @ str_exn e)])"
    using delete_content_failure[OF assms] by (simp add: msg_delete_failed_def)
  have em: "\<forall>content_id cp ct e.
               strip ct \<noteq> []
               \<and> db_update db content_id \<lparr>upd_prompt = cp, upd_text = ct\<rparr> = Some e \<longrightarrow>
               edit_modal s content_id (ClickSaveEdit cp ct) db
                 = (Finished, fst (get_user_id s),
                    [StoreUpdate content_id \<lparr>upd_prompt = cp, upd_text = ct\<rparr>,
                     StError (''Falha ao atualizar conte'' @ [CHR 0xC3, CHR 0xBA] @ ''do: '' @ str_exn e)])"
    using edit_modal_update_failure[OF assms] by (simp add: msg_update_failed_def)
  have cd: "\<forall>content_id e.
               db_delete db content_id = Some e \<longrightarrow>
               confirm_delete_modal s content_id ClickConfirmDelete db
                 = (Rerun, (fst (get_user_id s))\<lparr>deleting_item_id := None\<rparr>,
                    [StWarning msg_confirm_delete, StoreDelete content_id,
                     StError (''Falha ao excluir conte'' @ [CHR 0xC3, CHR 0xBA] @ ''do: '' @ str_exn e)])"
    using confirm_delete_failure[OF assms] by (simp add: msg_delete_failed_def)
  from sv up dl em cd get_user_id_fields(6,7,8,9,11)[of s] show ?thesis by (intro conjI)
qed

theorem store_failure_keeps_cache_witness:
  "snd (get_user_id loaded_session) \<noteq> []
   \<and> generated_content_list loaded_session = Some [\<lparr>item_id = ''a'',
               item_dict = \<lparr>toolId = ''article'', toolName = ''Gerador de Artigos'',
                            prompt = ''tema'', text_field = ''texto'', createdAt = 1,
                            updatedAt = None\<rparr>\<rparr>]
   \<and> editing_item_id loaded_session = Some ''a''
   \<and> save_content_to_firestore loaded_session
        \<lparr>new_toolId = ''article'', new_toolName = ''Gerador de Artigos'',
         new_prompt = ''tema'', new_text = ''texto''\<rparr>
        ((static_db [example_doc ''a'' 1])
           \<lparr>db_add := (\<lambda>c. Some (Exn ServiceUnavailable ''503 unavailable''))\<rparr>)
      = (Finished, fst (get_user_id loaded_session),
         [StoreAdd \<lparr>new_toolId = ''article'', new_toolName = ''Gerador de Artigos'',
                    new_prompt = ''tema'', new_text = ''texto''\<rparr>,
          StError (''Falha ao salvar conte'' @ [CHR 0xC3, CHR 0xBA] @ ''do: '' @ ''503 unavailable'')])
   \<and> edit_modal loaded_session ''a'' (ClickSaveEdit ''tema'' ''novo'')
        ((static_db [example_doc ''a'' 1])
           \<lparr>db_update := (\<lambda>i u. Some (Exn ServiceUnavailable ''503 unavailable''))\<rparr>)
      = (Finished, fst (get_user_id loaded_session),
         [StoreUpdate ''a'' \<lparr>upd_prompt = ''tema'', upd_text = ''novo''\<rparr>,
          StError (''Falha ao atualizar conte'' @ [CHR 0xC3, CHR 0xBA] @ ''do: '' @ ''503 unavailable'')])
   \<and> confirm_delete_modal loaded_session ''a'' ClickConfirmDelete
        ((static_db [example_doc ''a'' 1])
           \<lparr>db_delete := (\<lambda>i. Some (Exn ServiceUnavailable ''503 unavailable''))\<rparr>)
      = (Rerun, (fst (get_user_id loaded_session))\<lparr>deleting_item_id := None\<rparr>,
         [StWarning msg_confirm_delete, StoreDelete ''a'',
          StError (''Falha ao excluir conte'' @ [CHR 0xC3, CHR 0xBA] @ ''do: '' @ ''503 unavailable'')])
   \<and> generated_content_list (fst (get_user_id loaded_session)) = Some [\<lparr>item_id = ''a'',
               item_dict = \<lparr>toolId = ''article'', toolName = ''Gerador de Artigos'',
                            prompt = ''tema'', text_field = ''texto'', createdAt = 1,
                            updatedAt = None\<rparr>\<rparr>]
   \<and> editing_item_id (fst (get_user_id loaded_session)) = Some ''a''"
proof -
  let ?e = "Exn ServiceUnavailable ''503 unavailable''"
  let ?dbA = "(static_db [example_doc ''a'' 1])\<lparr>db_add := (\<lambda>c. Some ?e)\<rparr>"
  let ?dbU = "(static_db [example_doc ''a'' 1])\<lparr>db_update := (\<lambda>i u. Some ?e)\<rparr>"
  let ?dbD = "(static_db [example_doc ''a'' 1])\<lparr>db_delete := (\<lambda>i. Some ?e)\<rparr>"
  have u: "snd (get_user_id loaded_session) \<noteq> []"
    by (simp add: get_user_id_def loaded_session_def default_session_state_def)
  have g: "generated_content_list loaded_session = Some [\<lparr>item_id = ''a'',
               item_dict = \<lparr>toolId = ''article'', toolName = ''Gerador de Artigos'',
                            prompt = ''tema'', text_field = ''texto'', createdAt = 1,
                            updatedAt = None\<rparr>\<rparr>]"
    by (simp add: loaded_session_def)
  have ed: "editing_item_id loaded_session = Some ''a''"
    by (simp add: loaded_session_def)
  have st: "strip ''novo'' \<noteq> []" by code_simp
  note TA = store_failure_keeps_cache[OF u, where db = ?dbA]
  note TU = store_failure_keeps_cache[OF u, where db = ?dbU]
  note TD = store_failure_keeps_cache[OF u, where db = ?dbD]
  have sv: "save_content_to_firestore loaded_session
        \<lparr>new_toolId = ''article'', new_toolName = ''Gerador de Artigos'',
         new_prompt = ''tema'', new_text = ''texto''\<rparr> ?dbA
      = (Finished, fst (get_user_id loaded_session),
         [StoreAdd \<lparr>new_toolId = ''article'', new_toolName = ''Gerador de Artigos'',
                    new_prompt = ''tema'', new_text = ''texto''\<rparr>,
          StError (''Falha ao salvar conte'' @ [CHR 0xC3, CHR 0xBA] @ ''do: '' @ ''503 unavailable'')])"
    using TA[THEN conjunct1] by simp
  have em: "edit_modal loaded_session ''a'' (ClickSaveEdit ''tema'' ''novo'') ?dbU
      = (Finished, fst (get_user_id loaded_session),
         [StoreUpdate ''a'' \<lparr>upd_prompt = ''tema'', upd_text = ''novo''\<rparr>,
          StError (''Falha ao atualizar conte'' @ [CHR 0xC3, CHR 0xBA] @ ''do: '' @ ''503 unavailable'')])"
    using TU[THEN conjunct2, THEN conjunct2, THEN conjunct2, THEN conjunct1] st by simp
  have cd: "confirm_delete_modal loaded_session ''a'' ClickConfirmDelete ?dbD
      = (Rerun, (fst (get_user_id loaded_session))\<lparr>deleting_item_id := None\<rparr>,
         [StWarning msg_confirm_delete, StoreDelete ''a'',
          StError (''Falha ao excluir conte'' @ [CHR 0xC3, CHR 0xBA] @ ''do: '' @ ''503 unavailable'')])"
    using TD[THEN conjunct2, THEN conjunct2, THEN conjunct2, THEN conjunct2, THEN conjunct1]
    by simp
  have g': "generated_content_list (fst (get_user_id loaded_session)) = Some [\<lparr>item_id = ''a'',
               item_dict = \<lparr>toolId = ''article'', toolName = ''Gerador de Artigos'',
                            prompt = ''tema'', text_field = ''texto'', createdAt = 1,
                            updatedAt = None\<rparr>\<rparr>]"
    using TA g by simp
  have ed': "editing_item_id (fst (get_user_id loaded_session)) = Some ''a''"
    using TA ed by simp
  from u g ed sv em cd g' ed' show ?thesis by (intro conjI)
qed

text \<open>
  C7 as stated does not hold: an update of a missing document is reported with the same
  message template as any other failure of the store, and the outcome of the call does
  not depend on the class of the exception.
\<close>

theorem missing_item_report_counterexample:
  "update_content_in_firestore default_session_state ''gone''
      \<lparr>upd_prompt = ''tema'', upd_text = ''novo''\<rparr>
      (failing_db (Exn NotFound ''404 No document to update''))
   = (fst (get_user_id default_session_state),
      [StoreUpdate ''gone'' \<lparr>upd_prompt = ''tema'', upd_text = ''novo''\<rparr>,
       StError (''Falha ao atualizar conte'' @ [CHR 0xC3, CHR 0xBA]
                @ ''do: 404 No document to update'')],
      False)
   \<and> update_content_in_firestore default_session_state ''gone''
        \<lparr>upd_prompt = ''tema'', upd_text = ''novo''\<rparr>
        (failing_db (Exn NotFound ''404 No document to update''))
     = update_content_in_firestore default_session_state ''gone''
        \<lparr>upd_prompt = ''tema'', upd_text = ''novo''\<rparr>
        (failing_db (Exn ServiceUnavailable ''404 No document to update''))"
proof -
  have u: "snd (get_user_id default_session_state) \<noteq> []"
    by (simp add: default_user_identified)
  show ?thesis
    by (simp add: update_content_failure[OF u] failing_db_def msg_update_failed_def)
qed

text \<open>
  C7, amended. Whatever the store raises when \<open>update\<close> is called, a missing document
  included, one handler reports it: the user sees the update-failure message followed by
  the text of the exception, the function returns \<open>False\<close>, the edit dialog that called
  it stays open, and the cached list is not invalidated. Two exceptions with the same
  text give the same outcome.
\<close>

theorem update_failure_single_report:
  assumes "snd (get_user_id s) \<noteq> []"
    and "db_update db content_id \<lparr>upd_prompt = cp, upd_text = ct\<rparr> = Some e"
  shows "update_content_in_firestore s content_id \<lparr>upd_prompt = cp, upd_text = ct\<rparr> db
           = (fst (get_user_id s),
              [StoreUpdate content_id \<lparr>upd_prompt = cp, upd_text = ct\<rparr>,
               StError (''Falha ao atualizar conte'' @ [CHR 0xC3, CHR 0xBA] @ ''do: '' @ str_exn e)],
              False)
         \<and> (strip ct \<noteq> [] \<longrightarrow>
              edit_modal s content_id (ClickSaveEdit cp ct) db
                = (Finished, fst (get_user_id s),
                   [StoreUpdate content_id \<lparr>upd_prompt = cp, upd_text = ct\<rparr>,
                    StError (''Falha ao atualizar conte'' @ [CHR 0xC3, CHR 0xBA] @ ''do: '' @ str_exn e)]))
         \<and> editing_item_id (fst (get_user_id s)) = editing_item_id s
         \<and> generated_content_list (fst (get_user_id s)) = generated_content_list s
         \<and> (\<forall>db' e'.
               db_update db' content_id \<lparr>upd_prompt = cp, upd_text = ct\<rparr> = Some e'
               \<and> str_exn e' = str_exn e \<longrightarrow>
               update_content_in_firestore s content_id \<lparr>upd_prompt = cp, upd_text = ct\<rparr> db'
                 = update_content_in_firestore s content_id
                     \<lparr>upd_prompt = cp, upd_text = ct\<rparr> db
               \<and> edit_modal s content_id (ClickSaveEdit cp ct) db'
                 = edit_modal s content_id (ClickSaveEdit cp ct) db)"
proof -
  have a: "update_content_in_firestore s content_id \<lparr>upd_prompt = cp, upd_text = ct\<rparr> db
           = (fst (get_user_id s),
              [StoreUpdate content_id \<lparr>upd_prompt = cp, upd_text = ct\<rparr>,
               StError (''Falha ao atualizar conte'' @ [CHR 0xC3, CHR 0xBA] @ ''do: '' @ str_exn e)],
              False)"
    using update_content_failure[OF assms] by (simp add: msg_update_failed_def)
  have m: "strip ct \<noteq> [] \<longrightarrow>
              edit_modal s content_id (ClickSaveEdit cp ct) db
                = (Finished, fst (get_user_id s),
                   [StoreUpdate content_id \<lparr>upd_prompt = cp, upd_text = ct\<rparr>,
                    StError (''Falha ao atualizar conte'' @ [CHR 0xC3, CHR 0xBA] @ ''do: '' @ str_exn e)])"
  proof
    assume "strip ct \<noteq> []"
    from edit_modal_update_failure[OF assms(1) this assms(2)]
    show "edit_modal s content_id (ClickSaveEdit cp ct) db
                = (Finished, fst (get_user_id s),
                   [StoreUpdate content_id \<lparr>upd_prompt = cp, upd_text = ct\<rparr>,
                    StError (''Falha ao atualizar conte'' @ [CHR 0xC3, CHR 0xBA] @ ''do: '' @ str_exn e)])"
      by (simp add: msg_update_failed_def)
  qed
  have b: "\<forall>db' e'.
               db_update db' content_id \<lparr>upd_prompt = cp, upd_text = ct\<rparr> = Some e'
               \<and> str_exn e' = str_exn e \<longrightarrow>
               update_content_in_firestore s content_id \<lparr>upd_prompt = cp, upd_text = ct\<rparr> db'
                 = update_content_in_firestore s content_id
                     \<lparr>upd_prompt = cp, upd_text = ct\<rparr> db
               \<and> edit_modal s content_id (ClickSaveEdit cp ct) db'
                 = edit_modal s content_id (ClickSaveEdit cp ct) db"
  proof (intro allI impI)
    fix db' :: firestore and e' :: exn
    assume h: "db_update db' content_id \<lparr>upd_prompt = cp, upd_text = ct\<rparr> = Some e'
               \<and> str_exn e' = str_exn e"
    have u: "update_content_in_firestore s content_id \<lparr>upd_prompt = cp, upd_text = ct\<rparr> db'
             = update_content_in_firestore s content_id \<lparr>upd_prompt = cp, upd_text = ct\<rparr> db"
      using update_content_failure[OF assms(1), of db' content_id _ e'] h
        update_content_failure[OF assms]
      by (simp add: msg_update_failed_def)
    then have "edit_modal s content_id (ClickSaveEdit cp ct) db'
               = edit_modal s content_id (ClickSaveEdit cp ct) db"
      by (simp add: edit_modal_def)
    with u show "update_content_in_firestore s content_id \<lparr>upd_prompt = cp, upd_text = ct\<rparr> db'
                 = update_content_in_firestore s content_id
                     \<lparr>upd_prompt = cp, upd_text = ct\<rparr> db
               \<and> edit_modal s content_id (ClickSaveEdit cp ct) db'
                 = edit_modal s content_id (ClickSaveEdit cp ct) db"
      by (intro conjI)
  qed
  from a m get_user_id_fields(11)[of s] get_user_id_fields(6)[of s] b
  show ?thesis by (intro conjI)
qed

theorem update_failure_single_report_witness:
  "snd (get_user_id loaded_session) \<noteq> []
   \<and> editing_item_id loaded_session = Some ''a''
   \<and> db_update
        ((static_db [])\<lparr>db_update :=
            (\<lambda>i u. Some (Exn NotFound ''404 No document to update''))\<rparr>)
        ''a'' \<lparr>upd_prompt = ''tema'', upd_text = ''novo''\<rparr>
      = Some (Exn NotFound ''404 No document to update'')
   \<and> update_content_in_firestore loaded_session ''a''
        \<lparr>upd_prompt = ''tema'', upd_text = ''novo''\<rparr>
        ((static_db [])\<lparr>db_update :=
            (\<lambda>i u. Some (Exn NotFound ''404 No document to update''))\<rparr>)
      = (fst (get_user_id loaded_session),
         [StoreUpdate ''a'' \<lparr>upd_prompt = ''tema'', upd_text = ''novo''\<rparr>,
          StError (''Falha ao atualizar conte'' @ [CHR 0xC3, CHR 0xBA] @ ''do: '' @ ''404 No document to update'')],
         False)
   \<and> edit_modal loaded_session ''a'' (ClickSaveEdit ''tema'' ''novo'')
        ((static_db [])\<lparr>db_update :=
            (\<lambda>i u. Some (Exn NotFound ''404 No document to update''))\<rparr>)
      = (Finished, fst (get_user_id loaded_session),
         [StoreUpdate ''a'' \<lparr>upd_prompt = ''tema'', upd_text = ''novo''\<rparr>,
          StError (''Falha ao atualizar conte'' @ [CHR 0xC3, CHR 0xBA] @ ''do: '' @ ''404 No document to update'')])
   \<and> editing_item_id (fst (get_user_id loaded_session)) = Some ''a''
   \<and> generated_content_list (fst (get_user_id loaded_session)) = Some [\<lparr>item_id = ''a'',
               item_dict = \<lparr>toolId = ''article'', toolName = ''Gerador de Artigos'',
                            prompt = ''tema'', text_field = ''texto'', createdAt = 1,
                            updatedAt = None\<rparr>\<rparr>]"
proof -
  let ?e = "Exn NotFound ''404 No document to update''"
  let ?db = "(static_db [])\<lparr>db_update := (\<lambda>i u. Some ?e)\<rparr>"
  have u: "snd (get_user_id loaded_session) \<noteq> []"
    by (simp add: get_user_id_def loaded_session_def default_session_state_def)
  have ed: "editing_item_id loaded_session = Some ''a''"
    by (simp add: loaded_session_def)
  have g: "generated_content_list loaded_session = Some [\<lparr>item_id = ''a'',
               item_dict = \<lparr>toolId = ''article'', toolName = ''Gerador de Artigos'',
                            prompt = ''tema'', text_field = ''texto'', createdAt = 1,
                            updatedAt = None\<rparr>\<rparr>]"
    by (simp add: loaded_session_def)
  have b: "db_update ?db ''a'' \<lparr>upd_prompt = ''tema'', upd_text = ''novo''\<rparr> = Some ?e"
    by simp
  have st: "strip ''novo'' \<noteq> []" by code_simp
  note T = update_failure_single_report[OF u b]
  have t1: "update_content_in_firestore loaded_session ''a''
        \<lparr>upd_prompt = ''tema'', upd_text = ''novo''\<rparr> ?db
      = (fst (get_user_id loaded_session),
         [StoreUpdate ''a'' \<lparr>upd_prompt = ''tema'', upd_text = ''novo''\<rparr>,
          StError (''Falha ao atualizar conte'' @ [CHR 0xC3, CHR 0xBA] @ ''do: '' @ ''404 No document to update'')],
         False)"
    using T[THEN conjunct1] by simp
  have t2: "edit_modal loaded_session ''a'' (ClickSaveEdit ''tema'' ''novo'') ?db
      = (Finished, fst (get_user_id loaded_session),
         [StoreUpdate ''a'' \<lparr>upd_prompt = ''tema'', upd_text = ''novo''\<rparr>,
          StError (''Falha ao atualizar conte'' @ [CHR 0xC3, CHR 0xBA] @ ''do: '' @ ''404 No document to update'')])"
    using T[THEN conjunct2, THEN conjunct1] st by simp
  have t3: "editing_item_id (fst (get_user_id loaded_session)) = Some ''a''"
    using T ed by simp
  have t4: "generated_content_list (fst (get_user_id loaded_session)) = Some [\<lparr>item_id = ''a'',
               item_dict = \<lparr>toolId = ''article'', toolName = ''Gerador de Artigos'',
                            prompt = ''tema'', text_field = ''texto'', createdAt = 1,
                            updatedAt = None\<rparr>\<rparr>]"
    using T g by simp
  from u ed b t1 t2 t3 t4 show ?thesis by (intro conjI)
qed

section \<open>The script after an invalidation\<close>

lemma init_session_state_fields:
  "is_loading_content (init_session_state s) = is_loading_content s"
  "generated_content_list (init_session_state s)
     = (case generated_content_list s of None \<Rightarrow> Some [] | Some l \<Rightarrow> Some l)"
  by (simp_all add: init_session_state_def default_session_state_def split: option.splits)

lemma main_on_content_page:
  "main fpdf s (on_content_page c) api repr db =
     render_my_content_page
       fpdf ((fst (get_user_id (fst (get_user_id (init_session_state s)))))
          \<lparr>current_page := ''my-content''\<rparr>) c db"
  by (simp add: main_def on_content_page_def Let_def split: prod.splits)

text \<open>
  At the level of the page function alone, a deleted cache key does lead to one fetch of
  the first page: the initialisation block of the page sets the loading flag.
\<close>

lemma page_reloads_deleted_key:
  assumes "generated_content_list s = None" "snd (get_user_id s) \<noteq> []"
    and "db_stream db \<lparr>limit = ITEMS_PER_PAGE, start_after = None\<rparr> = Inr docs"
  shows "render_my_content_page fpdf s c db =
           (Rerun,
            (fst (get_user_id s))
              \<lparr>generated_content_list := Some (map item_of docs),
               last_doc_snapshot := (if docs \<noteq> [] then Some (last docs) else None),
               has_more_content := (length docs = ITEMS_PER_PAGE),
               is_loading_content := False\<rparr>,
            [StoreStream \<lparr>limit = ITEMS_PER_PAGE, start_after = None\<rparr>])"
  using render_first_page[OF _ assms(2,3)] assms(1) by (simp add: first_load_pending_def)

text \<open>
  In a run of the whole script, the defaults loop has put the empty list back under the
  key before the page function starts, and the loading flag is still the one the last
  load left: the page shows the "no saved content" notice and fetches nothing.
\<close>

lemma script_after_invalidation:
  assumes "generated_content_list s = None" "\<not> is_loading_content s"
  shows "\<exists>s'. main fpdf s (on_content_page c) api repr db = (Finished, s', [StInfo msg_no_content])
           \<and> generated_content_list s' = Some []"
proof -
  let ?s4 = "(fst (get_user_id (fst (get_user_id (init_session_state s)))))
               \<lparr>current_page := ''my-content''\<rparr>"
  have g: "generated_content_list ?s4 = Some []"
    using assms(1) by (simp add: get_user_id_fields init_session_state_fields)
  have l: "\<not> is_loading_content ?s4"
    using assms(2) by (simp add: get_user_id_fields init_session_state_fields)
  show ?thesis
    unfolding main_on_content_page using render_empty_list[OF g l] g by simp
qed

text \<open>
  C2 does not hold on the script. The example: two documents are saved, the page loads
  them, the user presses the delete button of the first item and confirms, and the store
  deletes the document. The deletion removes the cache key and reruns, as the claim
  says. In the run that follows, against the store that now holds one document, the
  defaults loop has restored the key before the page is drawn: no query is sent, the
  page shows the "no saved content" notice, and the cache stays empty.
\<close>

theorem invalidated_cache_not_refetched:
  "(case main (\<lambda>t. None) default_session_state (on_content_page NoClick) (\<lambda>p. Inr JNull) (\<lambda>v. [])
           (static_db [example_doc ''a'' 1, example_doc ''b'' 2]) of
      (k1, s1, e1) \<Rightarrow>
    case main (\<lambda>t. None) s1 (on_content_page (ClickDelete 0)) (\<lambda>p. Inr JNull) (\<lambda>v. [])
           (static_db [example_doc ''a'' 1, example_doc ''b'' 2]) of
      (k2, s2, e2) \<Rightarrow>
    case main (\<lambda>t. None) s2 (on_content_page ClickConfirmDelete) (\<lambda>p. Inr JNull) (\<lambda>v. [])
           (static_db [example_doc ''a'' 1, example_doc ''b'' 2]) of
      (k3, s3, e3) \<Rightarrow>
    case main (\<lambda>t. None) s3 (on_content_page NoClick) (\<lambda>p. Inr JNull) (\<lambda>v. [])
           (static_db [example_doc ''a'' 1]) of
      (k4, s4, e4) \<Rightarrow>
        e1 = [StoreStream \<lparr>limit = 5, start_after = None\<rparr>]
        \<and> generated_content_list s2
            = Some [item_of (example_doc ''b'' 2), item_of (example_doc ''a'' 1)]
        \<and> deleting_item_id s2 = Some ''b''
        \<and> k3 = Rerun
        \<and> e3 = [Expander (item_of (example_doc ''b'' 2)), StSuccess msg_pdf_ready,
                 Expander (item_of (example_doc ''a'' 1)), StSuccess msg_pdf_ready,
                 StWarning msg_confirm_delete, StoreDelete ''b'', StSuccess msg_deleted]
        \<and> generated_content_list s3 = None
        \<and> k4 = Finished
        \<and> e4 = [StInfo msg_no_content]
        \<and> generated_content_list s4 = Some [])"
  by code_simp

section \<open>The generation request\<close>

text \<open>
  No entry of the whitespace table is a prefix of another one, so a string made of
  whitespace characters only is read back character by character, and \<open>strip\<close> leaves
  nothing of it.
\<close>

lemma py_whitespace_prefix_free:
  "list_all (\<lambda>a. list_all (\<lambda>b. prefix a b \<longrightarrow> a = b) py_whitespace) py_whitespace"
  by code_simp

lemma py_whitespace_nonempty: "[] \<notin> set py_whitespace"
  by (simp add: py_whitespace_def)

lemma lstrip_chars_Nil: "lstrip_chars ws [] = []"
  by (subst lstrip_chars.simps) (auto simp: find_Some_iff split: option.splits)

lemma lstrip_chars_concat:
  assumes pf: "\<And>a b. a \<in> set W \<Longrightarrow> b \<in> set W \<Longrightarrow> prefix a b \<Longrightarrow> a = b"
    and ne: "[] \<notin> set W"
    and ws: "set ws \<subseteq> set W"
  shows "lstrip_chars W (concat ws) = []"
  using ws
proof (induction ws)
  case Nil
  then show ?case by (simp add: lstrip_chars_Nil)
next
  case (Cons w ws)
  then have w: "w \<in> set W" and rest: "set ws \<subseteq> set W" by auto
  have wne: "w \<noteq> []" using w ne by auto
  have "\<exists>x. x \<in> set W \<and> x \<noteq> [] \<and> prefix x (w @ concat ws)" using w wne by auto
  then obtain w' where f: "find (\<lambda>x. x \<noteq> [] \<and> prefix x (w @ concat ws)) W = Some w'"
    by (cases "find (\<lambda>x. x \<noteq> [] \<and> prefix x (w @ concat ws)) W") (auto simp: find_None_iff)
  then have w': "w' \<in> set W" and p': "prefix w' (w @ concat ws)"
    by (auto simp: find_Some_iff in_set_conv_nth)
  have "prefix w' w \<or> prefix w w'" using prefix_same_cases[OF p', of w] by simp
  then have "w' = w" using pf[OF w' w] pf[OF w w'] by auto
  then show ?case using f Cons.IH[OF rest] by (subst lstrip_chars.simps) simp
qed

lemma strip_whitespace_only:
  assumes "set ws \<subseteq> set py_whitespace"
  shows "strip (concat ws) = []"
proof -
  have pf: "\<And>a b. a \<in> set py_whitespace \<Longrightarrow> b \<in> set py_whitespace \<Longrightarrow> prefix a b \<Longrightarrow> a = b"
    using py_whitespace_prefix_free by (auto simp: list_all_iff)
  have "lstrip (concat ws) = []"
    unfolding lstrip_def by (rule lstrip_chars_concat[OF pf py_whitespace_nonempty assms])
  then show ?thesis by (simp add: strip_def rstrip_def lstrip_chars_Nil)
qed

lemma configured_tools_have_sample:
  "map_of tool_configs tool_key = Some t \<Longrightarrow> sampleOutput t \<noteq> None"
  by (auto simp: tool_configs_def split: if_splits)

text \<open>
  C4. A prompt made only of whitespace characters (the characters that Python's
  \<^verbatim>\<open>str.strip\<close> removes, in their UTF-8 encoding: the ASCII ones, the no-break space,
  the Unicode spaces and separators; the empty prompt is the case of no character) is
  rejected: on a configured tool, a submit ends the run with a rerun before the
  generation block, the loading flag and the previous result are as they were, the
  message \<open>Por favor, insira um prompt.\<close> is stored, and the run's effects hold no
  request to the generation API (at most the display of an older error message). When
  no generation was pending, the next run shows that message, then an earlier result
  with the notice of its PDF download if there is one, and again sends no request.
\<close>

theorem blank_prompt_rejected:
  assumes "set ws \<subseteq> set py_whitespace"
    and "map_of tool_configs tool_key = Some t"
  shows "(case render_tool_page fpdf s tool_key
                 \<lparr>prompt_value = concat ws, submit_button = True, save_button = b\<rparr>
                 api repr db of
            (k, s', effs) \<Rightarrow>
              k = Rerun
              \<and> is_loading s' = is_loading s
              \<and> generated_result s' = generated_result s
              \<and> error_message s' = Some ''Por favor, insira um prompt.''
              \<and> effs = (case error_message s of
                           None \<Rightarrow> []
                         | Some m \<Rightarrow> if m \<noteq> [] then [StError m] else [])
              \<and> (\<forall>fp. ApiPost fp \<notin> set effs)
              \<and> (\<not> is_loading s \<longrightarrow>
                   (case render_tool_page fpdf s' tool_key
                           \<lparr>prompt_value = concat ws, submit_button = False,
                            save_button = False\<rparr>
                           api repr db of
                      (k2, s2, effs2) \<Rightarrow>
                        k2 = Finished
                        \<and> \<not> is_loading s2
                        \<and> generated_result s2 = generated_result s
                        \<and> effs2 = StError ''Por favor, insira um prompt.''
                                   # (if generated_result s \<noteq> []
                                      then ResultArea (generated_result s)
                                           # (case fpdf (generated_result s) of
                                                None \<Rightarrow> [StSuccess ''PDF pronto para download!'']
                                              | Some e \<Rightarrow>
                                                  [StError (''Erro ao gerar PDF: '' @ str_exn e),
                                                   StError ''Erro ao gerar PDF.''])
                                      else [])
                        \<and> (\<forall>fp. ApiPost fp \<notin> set effs2))))"
proof -
  have sp: "strip (concat ws) = []" using assms(1) by (rule strip_whitespace_only)
  have ne: "msg_enter_prompt \<noteq> []" and m: "msg_enter_prompt = ''Por favor, insira um prompt.''"
    by (simp_all add: msg_enter_prompt_def)
  show ?thesis
    using sp assms(2) ne unfolding m[symmetric]
    by (auto simp: render_tool_page_def Let_def download_as_pdf_def add_toast_def
        msg_pdf_ready_def msg_pdf_error_def msg_pdf_failed_def
        split: option.splits prod.splits)
qed

theorem blank_prompt_rejected_witness:
  "[CHR 0xC2, CHR 0xA0] \<in> set py_whitespace
   \<and> '' '' \<in> set py_whitespace
   \<and> map_of tool_configs ''article'' \<noteq> None
   \<and> (case render_tool_page (\<lambda>t. None)
              (default_session_state\<lparr>generated_result := ''antigo''\<rparr>) ''article''
              \<lparr>prompt_value = [CHR 0xC2, CHR 0xA0, CHR 0x20], submit_button = True,
               save_button = False\<rparr>
              (\<lambda>fp. Inr JNull) (\<lambda>v. []) (static_db []) of
         (k, s', effs) \<Rightarrow>
           k = Rerun \<and> is_loading s' = False \<and> generated_result s' = ''antigo''
           \<and> error_message s' = Some ''Por favor, insira um prompt.''
           \<and> effs = []
           \<and> (case render_tool_page (\<lambda>t. None) s' ''article''
                      \<lparr>prompt_value = [CHR 0xC2, CHR 0xA0, CHR 0x20], submit_button = False,
                       save_button = False\<rparr>
                      (\<lambda>fp. Inr JNull) (\<lambda>v. []) (static_db []) of
                 (k2, s2, effs2) \<Rightarrow>
                   k2 = Finished \<and> is_loading s2 = False
                   \<and> effs2 = [StError ''Por favor, insira um prompt.'', ResultArea ''antigo'',
                              StSuccess ''PDF pronto para download!'']))"
proof -
  have w1: "[CHR 0xC2, CHR 0xA0] \<in> set py_whitespace" by (simp add: py_whitespace_def)
  have w2: "'' '' \<in> set py_whitespace" by (simp add: py_whitespace_def)
  have a: "set [[CHR 0xC2, CHR 0xA0], '' ''] \<subseteq> set py_whitespace" using w1 w2 by simp
  obtain t where t: "map_of tool_configs ''article'' = Some t"
    by (simp add: tool_configs_def)
  have d: "is_loading (default_session_state\<lparr>generated_result := ''antigo''\<rparr>) = False"
    "error_message (default_session_state\<lparr>generated_result := ''antigo''\<rparr>) = Some []"
    "generated_result (default_session_state\<lparr>generated_result := ''antigo''\<rparr>) = ''antigo''"
    by (simp_all add: default_session_state_def)
  have "case render_tool_page (\<lambda>t. None)
              (default_session_state\<lparr>generated_result := ''antigo''\<rparr>) ''article''
              \<lparr>prompt_value = [CHR 0xC2, CHR 0xA0, CHR 0x20], submit_button = True,
               save_button = False\<rparr>
              (\<lambda>fp. Inr JNull) (\<lambda>v. []) (static_db []) of
         (k, s', effs) \<Rightarrow>
           k = Rerun \<and> is_loading s' = False \<and> generated_result s' = ''antigo''
           \<and> error_message s' = Some ''Por favor, insira um prompt.''
           \<and> effs = []
           \<and> (case render_tool_page (\<lambda>t. None) s' ''article''
                      \<lparr>prompt_value = [CHR 0xC2, CHR 0xA0, CHR 0x20], submit_button = False,
                       save_button = False\<rparr>
                      (\<lambda>fp. Inr JNull) (\<lambda>v. []) (static_db []) of
                 (k2, s2, effs2) \<Rightarrow>
                   k2 = Finished \<and> is_loading s2 = False
                   \<and> effs2 = [StError ''Por favor, insira um prompt.'', ResultArea ''antigo'',
                              StSuccess ''PDF pronto para download!''])"
    using blank_prompt_rejected[OF a t,
        where s = "default_session_state\<lparr>generated_result := ''antigo''\<rparr>" and b = False
        and fpdf = "\<lambda>t. None"
        and api = "\<lambda>fp. Inr JNull" and repr = "\<lambda>v. []" and db = "static_db []"] d
    by (simp split: prod.splits)
  with w1 w2 t show ?thesis by simp
qed

text \<open>
  A run that starts while a generation is marked as pending and carries a submit with a
  prompt that is not blank: the submit block has no test of the loading flag. The flag
  stays set, the result is cleared, and the run ends in a rerun before the generation
  block, so this run sends no request.
\<close>

lemma submit_while_loading:
  assumes "map_of tool_configs tool_key = Some t"
    and "is_loading s"
    and "strip p \<noteq> []"
  shows "(case render_tool_page fpdf s tool_key
                 \<lparr>prompt_value = p, submit_button = True, save_button = b\<rparr> api repr db of
            (k, s', effs) \<Rightarrow>
              k = Rerun \<and> is_loading s' \<and> generated_result s' = []
              \<and> error_message s' = Some []
              \<and> (\<forall>fp. ApiPost fp \<notin> set effs))"
  using assms
  by (auto simp: render_tool_page_def Let_def split: option.splits prod.splits)

lemma generate_transport_fault:
  assumes "exn_class e = RequestException"
  shows "generate s t repr (Inl e) =
           (s\<lparr>error_message := Some (msg_network_error e),
              generated_result :=
                (case sampleOutput t of None \<Rightarrow> msg_default_result | Some x \<Rightarrow> x)\<rparr>,
            [StError (msg_network_toast e)])"
  using assms by (simp add: generate_def bind_exn_def add_toast_def)

lemma generate_unusable_body:
  assumes "read_result body = Inr (Inr (fr, sr))"
  shows "generate s t repr (Inr body) =
           (s\<lparr>generated_result := msg_could_not_generate (detailed_error repr fr sr)\<rparr>,
            [StError (msg_generate_failed (detailed_error repr fr sr))])"
  using assms by (simp add: generate_def bind_exn_def add_toast_def)

lemma render_tool_page_pending:
  assumes "map_of tool_configs tool_key = Some t" "is_loading s"
  shows "render_tool_page fpdf s tool_key
           \<lparr>prompt_value = p, submit_button = False, save_button = b\<rparr> api repr db =
         (case (case error_message s of
                  None \<Rightarrow>
                    (s\<lparr>prompt_widgets := AList.update tool_key p (prompt_widgets s)\<rparr>, [])
                | Some m \<Rightarrow>
                    if m \<noteq> [] then
                      (s\<lparr>prompt_widgets := AList.update tool_key p (prompt_widgets s),
                         error_message := None\<rparr>, [StError m])
                    else
                      (s\<lparr>prompt_widgets := AList.update tool_key p (prompt_widgets s)\<rparr>, []))
          of (s2, e1) \<Rightarrow>
            (case generate s2 t repr (api (apiPromptPrefix t @ p)) of
               (s3, e2) \<Rightarrow>
                 (Rerun, s3\<lparr>is_loading := False\<rparr>,
                  e1 @ ApiPost (apiPromptPrefix t @ p) # e2)))"
  using assms
  by (auto simp: render_tool_page_def Let_def update_conv split: option.splits prod.splits)

text \<open>
  C8. When the request to the generation API raises a transport fault while a
  generation is pending, the run ends the pending state, stores the network error
  message, shows the network error notice and puts the tool's sample output in the
  result (every configured tool has one). A body without usable parts, in contrast,
  stores no error message: the two outcomes differ in the stored message and in the
  notice shown.
\<close>

theorem transport_fault_falls_back:
  assumes "map_of tool_configs tool_key = Some t"
    and "is_loading s"
    and "api (apiPromptPrefix t @ p) = Inl e"
    and "exn_class e = RequestException"
  shows "(case render_tool_page fpdf s tool_key
                 \<lparr>prompt_value = p, submit_button = False, save_button = b\<rparr> api repr db of
            (k, s', effs) \<Rightarrow>
              k = Rerun
              \<and> \<not> is_loading s'
              \<and> error_message s' = Some (''Erro de rede/API: '' @ str_exn e)
              \<and> Some (generated_result s') = sampleOutput t
              \<and> last effs = StError (msg_network_toast e)
              \<and> (\<forall>api' body fr sr.
                    api' (apiPromptPrefix t @ p) = Inr body
                    \<and> read_result body = Inr (Inr (fr, sr)) \<longrightarrow>
                    (case render_tool_page fpdf s tool_key
                            \<lparr>prompt_value = p, submit_button = False, save_button = b\<rparr>
                            api' repr db of
                       (k0, s0, effs0) \<Rightarrow>
                         k0 = Rerun
                         \<and> \<not> is_loading s0
                         \<and> (error_message s0 = None \<or> error_message s0 = Some [])
                         \<and> error_message s0 \<noteq> error_message s'
                         \<and> generated_result s0
                             = msg_could_not_generate (detailed_error repr fr sr)
                         \<and> last effs0 = StError (msg_generate_failed (detailed_error repr fr sr)))))"
proof -
  obtain x where x: "sampleOutput t = Some x"
    using configured_tools_have_sample[OF assms(1)] by auto
  show ?thesis
    using assms(3,4) x
    by (auto simp: render_tool_page_pending[OF assms(1,2)] generate_transport_fault
        generate_unusable_body msg_network_error_def Let_def split: option.splits)
qed

theorem transport_fault_falls_back_witness:
  "map_of tool_configs ''summary'' \<noteq> None
   \<and> is_loading (default_session_state\<lparr>is_loading := True\<rparr>)
   \<and> exn_class (Exn RequestException ''connection refused'') = RequestException
   \<and> (case render_tool_page (\<lambda>t. None) (default_session_state\<lparr>is_loading := True\<rparr>) ''summary''
              \<lparr>prompt_value = ''um texto'', submit_button = False, save_button = False\<rparr>
              (\<lambda>fp. Inl (Exn RequestException ''connection refused'')) (\<lambda>v. [])
              (static_db []) of
         (k, s', effs) \<Rightarrow>
           k = Rerun
           \<and> \<not> is_loading s'
           \<and> error_message s' = Some ''Erro de rede/API: connection refused''
           \<and> generated_result s' = ''Resumo do texto Z...'')"
proof -
  obtain t where t: "map_of tool_configs ''summary'' = Some t"
    and so: "sampleOutput t = Some ''Resumo do texto Z...''"
    by (simp add: tool_configs_def)
  have l: "is_loading (default_session_state\<lparr>is_loading := True\<rparr>)" by simp
  have c: "exn_class (Exn RequestException ''connection refused'') = RequestException" by simp
  have "case render_tool_page (\<lambda>t. None) (default_session_state\<lparr>is_loading := True\<rparr>) ''summary''
              \<lparr>prompt_value = ''um texto'', submit_button = False, save_button = False\<rparr>
              (\<lambda>fp. Inl (Exn RequestException ''connection refused'')) (\<lambda>v. [])
              (static_db []) of
         (k, s', effs) \<Rightarrow>
           k = Rerun
           \<and> \<not> is_loading s'
           \<and> error_message s' = Some ''Erro de rede/API: connection refused''
           \<and> generated_result s' = ''Resumo do texto Z...''"
    using transport_fault_falls_back[where tool_key = "''summary''" and t = t
        and s = "default_session_state\<lparr>is_loading := True\<rparr>"
        and api = "\<lambda>fp. Inl (Exn RequestException ''connection refused'')"
        and p = "''um texto''" and e = "Exn RequestException ''connection refused''"
        and b = False and repr = "\<lambda>v. []" and db = "static_db []"
        and fpdf = "\<lambda>t. None"] t l c so
    by (auto split: prod.splits)
  with t l c show ?thesis by simp
qed

text \<open>
  What the code after the request makes of a body without usable parts: a body with no
  \<^verbatim>\<open>candidates\<close> key, a first candidate without \<^verbatim>\<open>content\<close>, and an empty list of
  candidates.
\<close>

lemma missing_candidates_diagnostic:
  assumes "map_of kvs ''candidates'' = None"
  shows "read_result (JObj kvs) = Inr (Inr (JStr ''N/A'', JArr []))"
    and "sublist ''N/A'' (detailed_error repr (JStr ''N/A'') sr)"
proof -
  show "read_result (JObj kvs) = Inr (Inr (JStr ''N/A'', JArr []))"
    using assms
    by (simp add: read_result_def has_parts_def finish_reason_def safety_ratings_def
        bind_exn_def)
  have "detailed_error repr (JStr ''N/A'') sr
        = ''Resposta da API vazia ou malformada. Motivo: '' @ ''N/A''
          @ (''. Classifica'' @ [CHR 0xC3, CHR 0xA7, CHR 0xC3, CHR 0xB5] @ ''es: ''
             @ py_str repr sr)"
    by (simp add: detailed_error_def py_str_def)
  then show "sublist ''N/A'' (detailed_error repr (JStr ''N/A'') sr)"
    by (simp only: sublist_appendI)
qed

lemma candidate_without_content_diagnostic:
  assumes "map_of kvs ''candidates'' = Some (JArr (JObj c # cs))"
    and "map_of c ''content'' = None"
  shows "read_result (JObj kvs) =
           Inr (Inr ((case map_of c ''finishReason'' of None \<Rightarrow> JStr ''N/A'' | Some v \<Rightarrow> v),
                     (case map_of c ''safetyRatings'' of None \<Rightarrow> JArr [] | Some v \<Rightarrow> v)))"
  using assms
  by (simp add: read_result_def has_parts_def finish_reason_def safety_ratings_def
      bind_exn_def)

lemma empty_candidates_never_diagnosed:
  assumes "map_of kvs ''candidates'' = Some (JArr [])"
  shows "read_result (JObj kvs) = Inl (Exn IndexError ''list index out of range'')"
  using assms
  by (simp add: read_result_def has_parts_def finish_reason_def bind_exn_def)

text \<open>
  C3 does not hold on the code. For the body \<open>{"candidates": []}\<close> the first test is
  false, and the \<^verbatim>\<open>else\<close> branch evaluates
  \<^verbatim>\<open>result.get("candidates", [{}])[0]\<close>: the key is present, so the default is not
  used, and indexing the empty list raises \<^verbatim>\<open>IndexError\<close>. The general handler catches
  it: the stored message and the notice are those of a generation error, and the result
  is the tool's sample output. Only a body with no \<^verbatim>\<open>candidates\<close> key at all reaches
  the diagnostic with the finish reason \<open>N/A\<close>.
\<close>

theorem empty_candidates_raise_index_error:
  "read_result (JObj [(''candidates'', JArr [])])
     = Inl (Exn IndexError ''list index out of range'')
   \<and> read_result (JObj []) = Inr (Inr (JStr ''N/A'', JArr []))
   \<and> render_tool_page (\<lambda>t. None) (default_session_state\<lparr>is_loading := True\<rparr>) ''article''
        \<lparr>prompt_value = ''tema'', submit_button = False, save_button = False\<rparr>
        (\<lambda>fp. Inr (JObj [(''candidates'', JArr [])])) (\<lambda>v. ''[]'') (static_db [])
     = (Rerun,
        default_session_state
          \<lparr>prompt_widgets := [(''article'', ''tema'')],
           error_message :=
             Some (''Erro ao gerar conte'' @ [CHR 0xC3, CHR 0xBA]
                   @ ''do: list index out of range''),
           generated_result := ''Artigo gerado sobre o tema X...''\<rparr>,
        [ApiPost ''Escreva um artigo detalhado, informativo e bem estruturado sobre o seguinte tema: tema'',
         StError (''Erro na gera'' @ [CHR 0xC3, CHR 0xA7, CHR 0xC3, CHR 0xA3]
                  @ ''o: list index out of range'')])
   \<and> generated_result
        (fst (snd (render_tool_page (\<lambda>t. None) (default_session_state\<lparr>is_loading := True\<rparr>) ''article''
           \<lparr>prompt_value = ''tema'', submit_button = False, save_button = False\<rparr>
           (\<lambda>fp. Inr (JObj [])) (\<lambda>v. ''[]'') (static_db []))))
     = ''N'' @ [CHR 0xC3, CHR 0xA3] @ ''o foi poss'' @ [CHR 0xC3, CHR 0xAD]
       @ ''vel gerar o conte'' @ [CHR 0xC3, CHR 0xBA]
       @ ''do. Resposta da API vazia ou malformada. Motivo: N/A. Classifica''
       @ [CHR 0xC3, CHR 0xA7, CHR 0xC3, CHR 0xB5] @ ''es: []''"
  by code_simp

end
